theory Spec2Isabelle
  imports Main "HOL-Library.Sublist" "HOL-Library.List_Lexorder" "HOL-Library.Char_ord"
begin

section \<open>Identifier and literal safety\<close>

text \<open>
  Source: \<^verbatim>\<open>ckanext/datastore/backend/postgres.py\<close>, \<^verbatim>\<open>literal_string\<close> and
  \<^verbatim>\<open>identifier\<close>.  (\<open>identifier\<close> is a reserved word of Isabelle, hence \<open>identifier_pg\<close>.)
  Both call \<^verbatim>\<open>str.replace\<close> with a pattern of one character:
  first the quote character is replaced by two quote characters, then the
  NUL character is replaced by the empty string.
\<close>

definition NUL :: char where
  "NUL = CHR 0x00"

definition SQUOTE :: char where
  "SQUOTE = CHR 0x27"

definition DQUOTE :: char where
  "DQUOTE = CHR 0x22"

text \<open>\<^verbatim>\<open>s.replace(old, new)\<close> where \<^verbatim>\<open>old\<close> is a single character.\<close>

fun replace_char :: "char \<Rightarrow> string \<Rightarrow> string \<Rightarrow> string" where
  "replace_char old new [] = []"
| "replace_char old new (c # cs) =
     (if c = old then new @ replace_char old new cs
      else c # replace_char old new cs)"

definition literal_string :: "string \<Rightarrow> string" where
  "literal_string s =
     [SQUOTE] @ replace_char NUL [] (replace_char SQUOTE [SQUOTE, SQUOTE] s) @ [SQUOTE]"

definition identifier_pg :: "string \<Rightarrow> string" where
  "identifier_pg s =
     [DQUOTE] @ replace_char NUL [] (replace_char DQUOTE [DQUOTE, DQUOTE] s) @ [DQUOTE]"

text \<open>
  The reading of a quoted token, following the words of the specification:
  the outer quotes are stripped, every doubled quote collapses to one quote,
  and a quote that is not doubled (an unescaped quote) makes the token
  ill-formed (\<open>None\<close>).
\<close>

fun collapse_quotes :: "char \<Rightarrow> string \<Rightarrow> string option" where
  "collapse_quotes q [] = Some []"
| "collapse_quotes q [c] = (if c = q then None else Some [c])"
| "collapse_quotes q (c # d # cs) =
     (if c = q then
        (if d = q then map_option (\<lambda>r. q # r) (collapse_quotes q cs) else None)
      else map_option (\<lambda>r. c # r) (collapse_quotes q (d # cs)))"

definition strip_outer :: "char \<Rightarrow> string \<Rightarrow> string option" where
  "strip_outer q t =
     (case t of
        [] \<Rightarrow> None
      | c # r \<Rightarrow>
          (if c = q \<and> r \<noteq> [] \<and> last r = q then Some (butlast r) else None))"

definition decode_quoted :: "char \<Rightarrow> string \<Rightarrow> string option" where
  "decode_quoted q t =
     (case strip_outer q t of None \<Rightarrow> None | Some body \<Rightarrow> collapse_quotes q body)"

text \<open>The escaped body written as one pass over the input.\<close>

definition escape_body :: "char \<Rightarrow> string \<Rightarrow> string" where
  "escape_body q s =
     concat (map (\<lambda>c. if c = q then [q, q] else if c = NUL then [] else [c]) s)"

lemma replace_char_escape:
  "q \<noteq> NUL \<Longrightarrow> replace_char NUL [] (replace_char q [q, q] s) = escape_body q s"
  by (induction s) (simp_all add: escape_body_def)

lemma NUL_notin_escape_body: "q \<noteq> NUL \<Longrightarrow> NUL \<notin> set (escape_body q s)"
  by (induction s) (simp_all add: escape_body_def)

lemma escape_body_Nil: "escape_body q [] = []"
  by (simp add: escape_body_def)

lemma escape_body_Cons:
  "escape_body q (c # s) =
     (if c = q then [q, q] else if c = NUL then [] else [c]) @ escape_body q s"
  by (simp add: escape_body_def)

lemma collapse_quotes_plain:
  "c \<noteq> q \<Longrightarrow> collapse_quotes q (c # r) = map_option (\<lambda>x. c # x) (collapse_quotes q r)"
  by (cases r) simp_all

lemma collapse_escape_body:
  "q \<noteq> NUL \<Longrightarrow> collapse_quotes q (escape_body q s) = Some (filter (\<lambda>c. c \<noteq> NUL) s)"
proof (induction s)
  case Nil
  then show ?case by (simp add: escape_body_Nil)
next
  case (Cons c s)
  then have IH: "collapse_quotes q (escape_body q s) = Some (filter (\<lambda>c. c \<noteq> NUL) s)"
    by simp
  show ?case
  proof (cases "c = q")
    case True
    with IH Cons.prems show ?thesis by (simp add: escape_body_Cons)
  next
    case False
    then show ?thesis using IH
      by (cases "c = NUL") (simp_all add: escape_body_Cons collapse_quotes_plain)
  qed
qed

lemma strip_outer_wrap: "strip_outer q ([q] @ b @ [q]) = Some b"
  by (simp add: strip_outer_def)

lemma decode_wrap:
  "q \<noteq> NUL \<Longrightarrow> decode_quoted q ([q] @ escape_body q s @ [q]) = Some (filter (\<lambda>c. c \<noteq> NUL) s)"
  unfolding decode_quoted_def strip_outer_wrap by (simp add: collapse_escape_body)

lemma quotes_not_NUL: "SQUOTE \<noteq> NUL" "DQUOTE \<noteq> NUL"
  by (simp_all add: SQUOTE_def DQUOTE_def NUL_def)

text \<open>
  Claim C1.  For every string \<open>s\<close>, \<open>identifier_pg s\<close> is \<open>s\<close> between double
  quotes and \<open>literal_string s\<close> is \<open>s\<close> between single quotes, with every
  embedded quote character doubled and every NUL removed.  The output holds
  no NUL, and reading it back (outer quotes stripped, doubled quotes
  collapsed, a lone quote being an error) succeeds and gives \<open>s\<close> without its
  NULs; so no quote of the body is unescaped.
\<close>

theorem C1_quoting_safe:
  "identifier_pg s = [DQUOTE] @ escape_body DQUOTE s @ [DQUOTE]
   \<and> literal_string s = [SQUOTE] @ escape_body SQUOTE s @ [SQUOTE]
   \<and> NUL \<notin> set (identifier_pg s)
   \<and> NUL \<notin> set (literal_string s)
   \<and> decode_quoted DQUOTE (identifier_pg s) = Some (filter (\<lambda>c. c \<noteq> NUL) s)
   \<and> decode_quoted SQUOTE (literal_string s) = Some (filter (\<lambda>c. c \<noteq> NUL) s)"
proof -
  have i: "identifier_pg s = [DQUOTE] @ escape_body DQUOTE s @ [DQUOTE]"
    by (simp add: identifier_pg_def replace_char_escape quotes_not_NUL)
  have l: "literal_string s = [SQUOTE] @ escape_body SQUOTE s @ [SQUOTE]"
    by (simp add: literal_string_def replace_char_escape quotes_not_NUL)
  have ni: "NUL \<notin> set (identifier_pg s)"
    unfolding i using NUL_notin_escape_body [of DQUOTE s] quotes_not_NUL by auto
  have nl: "NUL \<notin> set (literal_string s)"
    unfolding l using NUL_notin_escape_body [of SQUOTE s] quotes_not_NUL by auto
  have di: "decode_quoted DQUOTE (identifier_pg s) = Some (filter (\<lambda>c. c \<noteq> NUL) s)"
    unfolding i by (rule decode_wrap) (rule quotes_not_NUL)
  have dl: "decode_quoted SQUOTE (literal_string s) = Some (filter (\<lambda>c. c \<noteq> NUL) s)"
    unfolding l by (rule decode_wrap) (rule quotes_not_NUL)
  from i l ni nl di dl show ?thesis by blast
qed

section \<open>Python values and builtins\<close>

text \<open>
  The values a request carries (decoded JSON).  The payload of a float is a
  mantissa and a binary exponent; no modelled function inspects it.
  \<open>isinstance(v, int)\<close> holds for integers and for booleans, as in Python.
\<close>

datatype pyval =
    PNone
  | PBool bool
  | PInt int
  | PFloat int int
  | PStr string
  | PList "pyval list"
  | PDict "(string \<times> pyval) list"

fun is_dict_or_list :: "pyval \<Rightarrow> bool" where
  "is_dict_or_list (PList _) = True"
| "is_dict_or_list (PDict _) = True"
| "is_dict_or_list _ = False"

fun isinstance_int :: "pyval \<Rightarrow> bool" where
  "isinstance_int (PInt _) = True"
| "isinstance_int (PBool _) = True"
| "isinstance_int _ = False"

fun isinstance_float :: "pyval \<Rightarrow> bool" where
  "isinstance_float (PFloat _ _) = True"
| "isinstance_float _ = False"

text \<open>
  The builtins of the language that \<^verbatim>\<open>_guess_type\<close> calls are not code of the
  repository; they are parameters of the model.  \<open>int_ok v\<close> says that
  \<^verbatim>\<open>int(v)\<close> returns (raises neither TypeError nor ValueError), \<open>float_ok v\<close>
  the same for \<^verbatim>\<open>float(v)\<close>, and \<open>strptime_ok v fmt\<close> that
  \<^verbatim>\<open>datetime.datetime.strptime(v, fmt)\<close> returns.
\<close>

record py_builtins =
  int_ok :: "pyval \<Rightarrow> bool"
  float_ok :: "pyval \<Rightarrow> bool"
  strptime_ok :: "pyval \<Rightarrow> string \<Rightarrow> bool"

section \<open>Type inference\<close>

definition DATE_FORMATS :: "string list" where
  "DATE_FORMATS =
     [''%Y-%m-%d'',
      ''%Y-%m-%d %H:%M:%S'',
      ''%Y-%m-%dT%H:%M:%S'',
      ''%Y-%m-%dT%H:%M:%SZ'',
      ''%d/%m/%Y'',
      ''%m/%d/%Y'',
      ''%d-%m-%Y'',
      ''%m-%d-%Y'']"

text \<open>The two members of the set \<^verbatim>\<open>data_types = set([int, float])\<close>.\<close>

datatype data_type = TInt | TFloat

fun coerces :: "py_builtins \<Rightarrow> data_type \<Rightarrow> pyval \<Rightarrow> bool" where
  "coerces B TInt v = int_ok B v"
| "coerces B TFloat v = float_ok B v"

text \<open>
  The loop \<^verbatim>\<open>for data_type in list(data_types)\<close>: a type whose call raises is
  discarded from the set, and the loop breaks once the set is empty.  The
  second argument is the snapshot \<^verbatim>\<open>list(data_types)\<close>, whose order Python
  leaves open; the third is the set itself.
\<close>

fun discard_failing :: "py_builtins \<Rightarrow> pyval \<Rightarrow> data_type list \<Rightarrow> data_type list \<Rightarrow> data_type list" where
  "discard_failing B field [] data_types = data_types"
| "discard_failing B field (t # ts) data_types =
     (if coerces B t field then discard_failing B field ts data_types
      else (let data_types' = removeAll t data_types
            in if data_types' = [] then data_types'
               else discard_failing B field ts data_types'))"

text \<open>The loop \<^verbatim>\<open>for format in _DATE_FORMATS\<close>, returning at the first format that parses.\<close>

fun try_date_formats :: "py_builtins \<Rightarrow> pyval \<Rightarrow> string list \<Rightarrow> bool" where
  "try_date_formats B field [] = False"
| "try_date_formats B field (fmt # fmts) =
     (if strptime_ok B field fmt then True else try_date_formats B field fmts)"

definition guess_type :: "py_builtins \<Rightarrow> data_type list \<Rightarrow> pyval \<Rightarrow> string" where
  "guess_type B order field =
     (if is_dict_or_list field then ''nested''
      else if isinstance_int field then ''int''
      else if isinstance_float field then ''float''
      else (let data_types = discard_failing B field order [TInt, TFloat]
            in if TInt \<in> set data_types then ''integer''
               else if TFloat \<in> set data_types then ''numeric''
               else if try_date_formats B field DATE_FORMATS then ''timestamp''
               else ''text''))"

text \<open>The decision list of the specification, in its order.\<close>

definition guess_type_spec :: "py_builtins \<Rightarrow> pyval \<Rightarrow> string" where
  "guess_type_spec B field =
     (case field of
        PDict _ \<Rightarrow> ''nested''
      | PList _ \<Rightarrow> ''nested''
      | PInt _ \<Rightarrow> ''int''
      | PBool _ \<Rightarrow> ''int''
      | PFloat _ _ \<Rightarrow> ''float''
      | _ \<Rightarrow>
         (if int_ok B field then ''integer''
          else if float_ok B field then ''numeric''
          else if list_ex (strptime_ok B field) DATE_FORMATS then ''timestamp''
          else ''text''))"

text \<open>
  A sample of the builtins on ASCII strings, used to run the examples: decimal
  integer literals with an optional sign, decimal fractions, and formats
  matched field by field (\<open>%Y\<close> four digits; \<open>%m\<close>, \<open>%d\<close>, \<open>%H\<close>, \<open>%M\<close>, \<open>%S\<close> one
  or two digits within their ranges).  Whether the day exists in the month
  is not checked.
\<close>

definition is_digit :: "char \<Rightarrow> bool" where
  "is_digit c = (of_char c \<ge> (48::nat) \<and> of_char c \<le> (57::nat))"

fun digits_value :: "nat \<Rightarrow> string \<Rightarrow> nat" where
  "digits_value acc [] = acc"
| "digits_value acc (c # cs) = digits_value (10 * acc + (of_char c - 48)) cs"

definition all_digits :: "string \<Rightarrow> bool" where
  "all_digits s = (s \<noteq> [] \<and> list_all is_digit s)"

definition strip_sign :: "string \<Rightarrow> string" where
  "strip_sign s =
     (case s of [] \<Rightarrow> [] | c # cs \<Rightarrow> if c = CHR ''+'' \<or> c = CHR ''-'' then cs else s)"

definition sample_int_ok :: "pyval \<Rightarrow> bool" where
  "sample_int_ok v = (case v of PStr s \<Rightarrow> all_digits (strip_sign s) | _ \<Rightarrow> False)"

definition sample_float_ok :: "pyval \<Rightarrow> bool" where
  "sample_float_ok v =
     (case v of
        PStr s \<Rightarrow>
          (let body = strip_sign s;
               whole = takeWhile is_digit body;
               rest = dropWhile is_digit body
           in whole \<noteq> [] \<and> (rest = [] \<or> (hd rest = CHR ''.'' \<and> list_all is_digit (tl rest))))
      | _ \<Rightarrow> False)"

definition field_range :: "char \<Rightarrow> (nat \<times> nat) option" where
  "field_range d =
     (if d = CHR ''m'' then Some (1, 12)
      else if d = CHR ''d'' then Some (1, 31)
      else if d = CHR ''H'' then Some (0, 23)
      else if d = CHR ''M'' then Some (0, 59)
      else if d = CHR ''S'' then Some (0, 61)
      else None)"

definition field_fits :: "nat \<Rightarrow> nat \<times> nat \<Rightarrow> string \<Rightarrow> bool" where
  "field_fits w r s =
     (w \<le> length s \<and> list_all is_digit (take w s)
      \<and> fst r \<le> digits_value 0 (take w s) \<and> digits_value 0 (take w s) \<le> snd r)"

fun match_format :: "string \<Rightarrow> string \<Rightarrow> bool" where
  "match_format [] s = (s = [])"
| "match_format [c] s = (c \<noteq> CHR ''%'' \<and> s = [c])"
| "match_format (c # d # fs) s =
     (if c = CHR ''%'' then
        (if d = CHR ''Y'' then field_fits 4 (0, 9999) s \<and> match_format fs (drop 4 s)
         else (case field_range d of
                 None \<Rightarrow> False
               | Some r \<Rightarrow>
                   (field_fits 2 r s \<and> match_format fs (drop 2 s))
                   \<or> (field_fits 1 r s \<and> match_format fs (drop 1 s))))
      else (case s of [] \<Rightarrow> False | x # xs \<Rightarrow> x = c \<and> match_format (d # fs) xs))"

definition sample_strptime_ok :: "pyval \<Rightarrow> string \<Rightarrow> bool" where
  "sample_strptime_ok v fmt = (case v of PStr s \<Rightarrow> match_format fmt s | _ \<Rightarrow> False)"

definition sample_builtins :: py_builtins where
  "sample_builtins =
     \<lparr> int_ok = sample_int_ok, float_ok = sample_float_ok, strptime_ok = sample_strptime_ok \<rparr>"

lemma try_date_formats_list_ex:
  "try_date_formats B field fmts = list_ex (strptime_ok B field) fmts"
  by (induction fmts) simp_all

lemma discard_failing_int_first:
  "set (discard_failing B field [TInt, TFloat] [TInt, TFloat]) =
     (if int_ok B field then {TInt} else {}) \<union> (if float_ok B field then {TFloat} else {})"
  by (auto simp: Let_def)

lemma discard_failing_float_first:
  "set (discard_failing B field [TFloat, TInt] [TInt, TFloat]) =
     (if int_ok B field then {TInt} else {}) \<union> (if float_ok B field then {TFloat} else {})"
  by (auto simp: Let_def)

lemma guess_type_meets_spec:
  assumes "order = [TInt, TFloat] \<or> order = [TFloat, TInt]"
  shows "guess_type B order field = guess_type_spec B field"
proof -
  have s: "set (discard_failing B field order [TInt, TFloat]) =
     (if int_ok B field then {TInt} else {}) \<union> (if float_ok B field then {TFloat} else {})"
    using assms discard_failing_int_first discard_failing_float_first by metis
  show ?thesis
    unfolding guess_type_def guess_type_spec_def Let_def s try_date_formats_list_ex
    by (cases field) simp_all
qed

lemma DATE_FORMATS_first: "list_ex P DATE_FORMATS = (P ''%Y-%m-%d'' \<or> list_ex P (tl DATE_FORMATS))"
  by (simp add: DATE_FORMATS_def)

text \<open>
  Claim C2.  Whatever the builtins do and whichever order the set of the two
  numeric types is walked in, \<open>guess_type\<close> decides as the specification's
  list does: dict or list gives nested, an int gives int, a float gives
  float, else int-coercible gives integer, else float-coercible gives
  numeric, else a value that one of the 8 formats parses gives timestamp,
  else text.  The five examples follow, the three on strings under what the
  builtins do on these very strings.
\<close>

theorem C2_guess_type_order:
  assumes "order = [TInt, TFloat] \<or> order = [TFloat, TInt]"
  shows "guess_type B order field = guess_type_spec B field
    \<and> length DATE_FORMATS = 8
    \<and> guess_type B order (PInt 5) = ''int''
    \<and> guess_type B order (PFloat 5 0) = ''float''
    \<and> (int_ok B (PStr ''5'') \<longrightarrow> guess_type B order (PStr ''5'') = ''integer'')
    \<and> (\<not> int_ok B (PStr ''2020-01-01'') \<and> \<not> float_ok B (PStr ''2020-01-01'')
         \<and> strptime_ok B (PStr ''2020-01-01'') ''%Y-%m-%d''
        \<longrightarrow> guess_type B order (PStr ''2020-01-01'') = ''timestamp'')
    \<and> (\<not> int_ok B (PStr ''abc'') \<and> \<not> float_ok B (PStr ''abc'')
         \<and> \<not> list_ex (strptime_ok B (PStr ''abc'')) DATE_FORMATS
        \<longrightarrow> guess_type B order (PStr ''abc'') = ''text'')"
proof -
  note eq = guess_type_meets_spec [OF assms]
  have a: "guess_type B order field = guess_type_spec B field" by (rule eq)
  have b: "length DATE_FORMATS = 8" by (simp add: DATE_FORMATS_def)
  have c: "guess_type B order (PInt 5) = ''int''"
    unfolding eq by (simp add: guess_type_spec_def)
  have d: "guess_type B order (PFloat 5 0) = ''float''"
    unfolding eq by (simp add: guess_type_spec_def)
  have e: "int_ok B (PStr ''5'') \<longrightarrow> guess_type B order (PStr ''5'') = ''integer''"
    unfolding eq by (simp add: guess_type_spec_def)
  have f: "\<not> int_ok B (PStr ''2020-01-01'') \<and> \<not> float_ok B (PStr ''2020-01-01'')
         \<and> strptime_ok B (PStr ''2020-01-01'') ''%Y-%m-%d''
        \<longrightarrow> guess_type B order (PStr ''2020-01-01'') = ''timestamp''"
    unfolding eq by (simp add: guess_type_spec_def DATE_FORMATS_first)
  have g: "\<not> int_ok B (PStr ''abc'') \<and> \<not> float_ok B (PStr ''abc'')
         \<and> \<not> list_ex (strptime_ok B (PStr ''abc'')) DATE_FORMATS
        \<longrightarrow> guess_type B order (PStr ''abc'') = ''text''"
    unfolding eq by (simp add: guess_type_spec_def)
  from a b c d e f g show ?thesis by blast
qed

lemma sample_on_5: "int_ok sample_builtins (PStr ''5'')"
  by (simp add: sample_builtins_def sample_int_ok_def all_digits_def strip_sign_def is_digit_def)

lemma sample_on_date:
  "\<not> int_ok sample_builtins (PStr ''2020-01-01'')"
  "\<not> float_ok sample_builtins (PStr ''2020-01-01'')"
  "strptime_ok sample_builtins (PStr ''2020-01-01'') ''%Y-%m-%d''"
  by (simp_all add: sample_builtins_def sample_int_ok_def sample_float_ok_def
      sample_strptime_ok_def all_digits_def strip_sign_def is_digit_def field_fits_def
      field_range_def)

lemma sample_on_abc:
  "\<not> int_ok sample_builtins (PStr ''abc'')"
  "\<not> float_ok sample_builtins (PStr ''abc'')"
  "\<not> list_ex (strptime_ok sample_builtins (PStr ''abc'')) DATE_FORMATS"
  by (simp_all add: sample_builtins_def sample_int_ok_def sample_float_ok_def
      sample_strptime_ok_def all_digits_def strip_sign_def is_digit_def field_fits_def
      field_range_def DATE_FORMATS_def)

theorem C2_guess_type_order_witness:
  "guess_type sample_builtins [TInt, TFloat] (PInt 5) = ''int''
   \<and> guess_type sample_builtins [TInt, TFloat] (PFloat 5 0) = ''float''
   \<and> guess_type sample_builtins [TInt, TFloat] (PStr ''5'') = ''integer''
   \<and> guess_type sample_builtins [TInt, TFloat] (PStr ''2020-01-01'') = ''timestamp''
   \<and> guess_type sample_builtins [TInt, TFloat] (PStr ''abc'') = ''text''"
  using C2_guess_type_order [of "[TInt, TFloat]" sample_builtins "PStr ''abc''"]
    sample_on_5 sample_on_date sample_on_abc
  by blast

section \<open>Row-count totals of a search\<close>

text \<open>
  Source: the end of \<^verbatim>\<open>search_data\<close>.  The inputs are the two keys of the
  request (\<^verbatim>\<open>include_total\<close>, absent meaning true, and
  \<^verbatim>\<open>total_estimation_threshold\<close>, absent or null being \<open>None\<close>), the WHERE
  clause and the DISTINCT keyword as built before (each the empty string
  when there is none), and the two answers of the engine: the planner
  statistics' row count (\<open>None\<close> when reading it raises ValueError, the
  statistics not being there yet) and the exact \<^verbatim>\<open>count(*)\<close> of the filtered
  query.  The result records which of the two queries were sent.
\<close>

datatype total_query = ApproximateRowCount | CountStar

record total_result =
  total :: int
  total_was_estimated :: bool
  queries_sent :: "total_query list"

definition distinct_keyword :: "bool \<Rightarrow> string" where
  "distinct_keyword d = (if d then ''DISTINCT'' else [])"

definition search_total ::
  "bool option \<Rightarrow> int option \<Rightarrow> string \<Rightarrow> string \<Rightarrow> int option \<Rightarrow> int \<Rightarrow> total_result option" where
  "search_total include_total total_estimation_threshold where_clause distinct_kw
       approximate_row_count exact_count =
     (if include_total = Some False then None
      else
        (let asked = (total_estimation_threshold \<noteq> None
                       \<and> \<not> (where_clause \<noteq> [] \<or> distinct_kw \<noteq> []));
             estimated_total = (if asked then approximate_row_count else None);
             sent = (if asked then [ApproximateRowCount] else [])
         in case estimated_total of
              None \<Rightarrow>
                Some \<lparr> total = exact_count, total_was_estimated = False,
                       queries_sent = sent @ [CountStar] \<rparr>
            | Some e \<Rightarrow>
                (case total_estimation_threshold of
                   None \<Rightarrow>
                     Some \<lparr> total = exact_count, total_was_estimated = False,
                            queries_sent = sent @ [CountStar] \<rparr>
                 | Some t \<Rightarrow>
                     if e \<ge> t
                     then Some \<lparr> total = e, total_was_estimated = True, queries_sent = sent \<rparr>
                     else Some \<lparr> total = exact_count, total_was_estimated = False,
                                 queries_sent = sent @ [CountStar] \<rparr>)))"

text \<open>The exact answer, as the specification words it: the count, not estimated.\<close>

definition exact_total :: "total_result option \<Rightarrow> int \<Rightarrow> bool" where
  "exact_total r exact_count =
     (case r of
        None \<Rightarrow> False
      | Some x \<Rightarrow> total x = exact_count \<and> \<not> total_was_estimated x
                  \<and> CountStar \<in> set (queries_sent x))"

text \<open>
  Claim C7.  With \<^verbatim>\<open>include_total\<close> on, the total is the exact count unless a
  threshold is given, there is neither a WHERE clause nor DISTINCT, and the
  planner's estimate is at least the threshold; then the total is the
  estimate, flagged as estimated, and no \<^verbatim>\<open>count(*)\<close> is sent.  In every other
  case the total is exact and not flagged; so it is for threshold 1000 and
  an estimate of 10.
\<close>

theorem C7_total_estimation_gate:
  assumes "include_total \<noteq> Some False"
  shows "(thr = None \<longrightarrow> exact_total (search_total include_total thr w d est cnt) cnt)
    \<and> (w \<noteq> [] \<or> d \<noteq> [] \<longrightarrow> exact_total (search_total include_total thr w d est cnt) cnt)
    \<and> (est = None \<longrightarrow> exact_total (search_total include_total thr w d est cnt) cnt)
    \<and> (thr = Some t \<and> est = Some e \<and> e < t
         \<longrightarrow> exact_total (search_total include_total thr w d est cnt) cnt)
    \<and> (thr = Some t \<and> w = [] \<and> d = [] \<and> est = Some e \<and> t \<le> e
         \<longrightarrow> search_total include_total thr w d est cnt
             = Some \<lparr> total = e, total_was_estimated = True,
                      queries_sent = [ApproximateRowCount] \<rparr>)
    \<and> exact_total (search_total include_total (Some 1000) [] [] (Some 10) cnt) cnt"
  using assms
  by (auto simp: search_total_def exact_total_def Let_def split: option.splits)

theorem C7_total_estimation_gate_witness:
  "search_total None (Some 1000) [] [] (Some 10) 7
     = Some \<lparr> total = 7, total_was_estimated = False,
              queries_sent = [ApproximateRowCount, CountStar] \<rparr>
   \<and> search_total None (Some 1000) [] [] (Some 5000) 4990
     = Some \<lparr> total = 5000, total_was_estimated = True,
              queries_sent = [ApproximateRowCount] \<rparr>
   \<and> exact_total (search_total (Some True) (Some 1000) ''WHERE (a = :value_0)'' []
        (Some 5000) 12) 12
   \<and> exact_total (search_total (Some True) None [] [] (Some 5000) 4990) 4990"
  using C7_total_estimation_gate [of "None" "Some 1000" "[]" "[]" "Some 5000" 4990 1000 5000]
    C7_total_estimation_gate [of "Some True" "None" "[]" "[]" "Some 5000" 4990]
    C7_total_estimation_gate [of "Some True" "Some 1000" "''WHERE (a = :value_0)''" "[]" "Some 5000" 12]
  by (simp add: search_total_def exact_total_def)

section \<open>Filter clauses\<close>

text \<open>
  Source: \<^verbatim>\<open>_is_array_type\<close>, \<^verbatim>\<open>_ts_query_alias\<close>, \<^verbatim>\<open>_fts_lang\<close> and
  \<^verbatim>\<open>_where_clauses\<close>.  A placeholder name is \<^verbatim>\<open>f"value_{next(idx_gen)}"\<close>, the
  counter \<^verbatim>\<open>itertools.count()\<close> starting at 0 and rendered in decimal.
\<close>

definition digit_char :: "nat \<Rightarrow> char" where
  "digit_char d = char_of (48 + d)"

fun str_nat :: "nat \<Rightarrow> string" where
  "str_nat n = (if n < 10 then [digit_char n] else str_nat (n div 10) @ [digit_char (n mod 10)])"

declare str_nat.simps [simp del]

fun join :: "string \<Rightarrow> string list \<Rightarrow> string" where
  "join sep [] = []"
| "join sep [x] = x"
| "join sep (x # y # ys) = x @ sep @ join sep (y # ys)"

text \<open>Python's truth value of a request value.\<close>

fun truthy :: "pyval \<Rightarrow> bool" where
  "truthy PNone = False"
| "truthy (PBool b) = b"
| "truthy (PInt i) = (i \<noteq> 0)"
| "truthy (PFloat m e) = (m \<noteq> 0)"
| "truthy (PStr s) = (s \<noteq> [])"
| "truthy (PList xs) = (xs \<noteq> [])"
| "truthy (PDict kvs) = (kvs \<noteq> [])"

fun is_list :: "pyval \<Rightarrow> bool" where
  "is_list (PList _) = True"
| "is_list _ = False"

fun list_items :: "pyval \<Rightarrow> pyval list" where
  "list_items (PList xs) = xs"
| "list_items _ = []"

definition is_array_type :: "string \<Rightarrow> bool" where
  "is_array_type field_type = (case field_type of [] \<Rightarrow> False | c # _ \<Rightarrow> c = CHR ''_'')"

text \<open>
  What \<^verbatim>\<open>_where_clauses\<close> takes from outside the repository's file: the text
  of \<^verbatim>\<open>sa.column(field)\<close> (SQLAlchemy), the builtin \<^verbatim>\<open>str\<close>, the helper
  \<^verbatim>\<open>should_fts_index_field_type\<close> and the configured default language.
\<close>

record where_env =
  sa_column :: "string \<Rightarrow> string"
  py_str :: "pyval \<Rightarrow> string"
  should_fts_index_field_type :: "string \<Rightarrow> bool"
  default_fts_lang :: string

text \<open>The keys of \<^verbatim>\<open>data_dict\<close> that \<^verbatim>\<open>_where_clauses\<close> reads; an absent key is
  the empty dict for \<^verbatim>\<open>filters\<close> and \<open>PNone\<close> or \<open>None\<close> for the others.\<close>

record where_request =
  filters :: "(string \<times> pyval) list"
  q :: pyval
  full_text :: pyval
  language :: "string option"

text \<open>A clause is a tuple of the clause text and the dict of its bound values, or
  of the clause text alone.\<close>

datatype where_clause = Bound string "(string \<times> pyval) list" | Bare string

definition placeholder_name :: "nat \<Rightarrow> string" where
  "placeholder_name i = ''value_'' @ str_nat i"

text \<open>The test \<^verbatim>\<open>isinstance(value, list) and not field_array_type\<close>.\<close>

definition list_on_scalar_column :: "string \<Rightarrow> pyval \<Rightarrow> bool" where
  "list_on_scalar_column ftype v = (is_list v \<and> \<not> is_array_type ftype)"

text \<open>The first loop, with the state of \<^verbatim>\<open>idx_gen\<close> as an argument.\<close>

fun filter_clauses ::
  "where_env \<Rightarrow> (string \<rightharpoonup> string) \<Rightarrow> nat \<Rightarrow> (string \<times> pyval) list \<Rightarrow> where_clause list" where
  "filter_clauses E fields_types idx [] = []"
| "filter_clauses E fields_types idx ((field, v) # rest) =
     (case fields_types field of
        None \<Rightarrow> filter_clauses E fields_types idx rest
      | Some ftype \<Rightarrow>
          (if list_on_scalar_column ftype v then
             (let placeholders = map placeholder_name [idx ..< idx + length (list_items v)];
                  clause_str = sa_column E field @ '' in (''
                     @ join '','' (map (\<lambda>p. '':'' @ p) placeholders) @ '')'';
                  vs = (if ftype = ''text'' then map (\<lambda>x. PStr (py_str E x)) (list_items v)
                        else list_items v)
              in Bound clause_str (zip placeholders vs)
                 # filter_clauses E fields_types (idx + length (list_items v)) rest)
           else
             (let v' = (if ftype = ''text'' then PStr (py_str E v) else v);
                  placeholder = placeholder_name idx
              in Bound (sa_column E field @ '' = :'' @ placeholder) [(placeholder, v')]
                 # filter_clauses E fields_types (Suc idx) rest)))"

definition fts_lang :: "where_env \<Rightarrow> string option \<Rightarrow> string" where
  "fts_lang E lang =
     (case lang of None \<Rightarrow> default_fts_lang E
      | Some l \<Rightarrow> if l = [] then default_fts_lang E else l)"

definition ts_query_alias :: "string option \<Rightarrow> string" where
  "ts_query_alias field =
     identifier_pg (''query'' @
       (case field of None \<Rightarrow> [] | Some f \<Rightarrow> if f = [] then [] else '' '' @ f))"

fun q_field_clauses ::
  "where_env \<Rightarrow> (string \<rightharpoonup> string) \<Rightarrow> string \<Rightarrow> (string \<times> pyval) list \<Rightarrow> where_clause list" where
  "q_field_clauses E fields_types lang [] = []"
| "q_field_clauses E fields_types lang ((field, v) # rest) =
     (case fields_types field of
        None \<Rightarrow> q_field_clauses E fields_types lang rest
      | Some ftyp \<Rightarrow>
          (let query_field = ts_query_alias (Some field)
           in (if \<not> should_fts_index_field_type E ftyp
               then [Bare (''_full_text @@ '' @ query_field)] else [])
              @ [Bare (''to_tsvector('' @ literal_string lang @ '', cast(''
                       @ identifier_pg field @ '' as text)) @@ '' @ query_field)]
              @ q_field_clauses E fields_types lang rest))"

definition q_clauses :: "where_env \<Rightarrow> (string \<rightharpoonup> string) \<Rightarrow> where_request \<Rightarrow> where_clause list" where
  "q_clauses E fields_types data_dict =
     (if truthy (q data_dict) then
        (case q data_dict of
           PStr _ \<Rightarrow> [Bare (''_full_text @@ '' @ ts_query_alias None)]
         | PDict items \<Rightarrow>
             q_field_clauses E fields_types (fts_lang E (language data_dict)) items
         | _ \<Rightarrow> [])
      else [])"

definition where_clauses :: "where_env \<Rightarrow> where_request \<Rightarrow> (string \<rightharpoonup> string) \<Rightarrow> where_clause list" where
  "where_clauses E data_dict fields_types =
     filter_clauses E fields_types 0 (filters data_dict)
     @ q_clauses E fields_types data_dict
     @ (if truthy (full_text data_dict)
        then [Bare (''_full_text @@ '' @ ts_query_alias None)] else [])"

text \<open>The placeholder names a clause binds.\<close>

fun placeholders_of :: "where_clause \<Rightarrow> string list" where
  "placeholders_of (Bound _ binds) = map fst binds"
| "placeholders_of (Bare _) = []"

text \<open>
  What the specification asks of the clause emitted for a filter pair on a
  known field, in its own words: an array type is a type name prefixed with
  an underscore; a list value on a column that is not of array type gives
  \<open>field in (...)\<close> over the elements, anything else gives \<open>field = value\<close>;
  on a column of type text the compared values are the string forms.
\<close>

definition in_clause ::
  "where_env \<Rightarrow> string \<Rightarrow> string \<Rightarrow> pyval list \<Rightarrow> string \<Rightarrow> (string \<times> pyval) list \<Rightarrow> bool" where
  "in_clause E ftype f xs text binds =
     (text = sa_column E f @ '' in ('' @ join '','' (map (\<lambda>p. '':'' @ p) (map fst binds)) @ '')''
      \<and> map snd binds = (if ftype = ''text'' then map (\<lambda>x. PStr (py_str E x)) xs else xs))"

definition equals_clause ::
  "where_env \<Rightarrow> string \<Rightarrow> string \<Rightarrow> pyval \<Rightarrow> string \<Rightarrow> (string \<times> pyval) list \<Rightarrow> bool" where
  "equals_clause E ftype f v text binds =
     (length binds = 1
      \<and> text = sa_column E f @ '' = :'' @ fst (hd binds)
      \<and> snd (hd binds) = (if ftype = ''text'' then PStr (py_str E v) else v))"

definition clause_for :: "where_env \<Rightarrow> (string \<rightharpoonup> string) \<Rightarrow> string \<times> pyval \<Rightarrow> where_clause \<Rightarrow> bool" where
  "clause_for E fields_types fv c =
     (case (fields_types (fst fv), c) of
        (Some ftype, Bound text binds) \<Rightarrow>
          (case snd fv of
             PList xs \<Rightarrow>
               if prefix ''_'' ftype then equals_clause E ftype (fst fv) (PList xs) text binds
               else in_clause E ftype (fst fv) xs text binds
           | v \<Rightarrow> equals_clause E ftype (fst fv) v text binds)
      | _ \<Rightarrow> False)"

definition known_filters :: "(string \<rightharpoonup> string) \<Rightarrow> (string \<times> pyval) list \<Rightarrow> (string \<times> pyval) list" where
  "known_filters fields_types fs = filter (\<lambda>fv. fields_types (fst fv) \<noteq> None) fs"

lemma str_nat_nonempty: "str_nat n \<noteq> []"
  by (subst str_nat.simps) simp

lemma digit_char_inj: "a < 10 \<Longrightarrow> b < 10 \<Longrightarrow> digit_char a = digit_char b \<Longrightarrow> a = b"
  by (simp add: digit_char_def char_of_eq_iff take_bit_eq_mod)

lemma str_nat_inj: "str_nat a = str_nat b \<Longrightarrow> a = b"
proof (induction a arbitrary: b rule: str_nat.induct)
  case (1 n)
  show ?case
  proof (cases "n < 10")
    case True
    then have sn: "str_nat n = [digit_char n]" by (subst str_nat.simps) simp
    show ?thesis
    proof (cases "b < 10")
      case b: True
      then have "str_nat b = [digit_char b]" by (subst str_nat.simps) simp
      with sn "1.prems" True b show ?thesis by (simp add: digit_char_inj)
    next
      case b: False
      then have "str_nat b = str_nat (b div 10) @ [digit_char (b mod 10)]"
        by (subst str_nat.simps) simp
      with sn "1.prems" str_nat_nonempty [of "b div 10"] show ?thesis by simp
    qed
  next
    case False
    then have sn: "str_nat n = str_nat (n div 10) @ [digit_char (n mod 10)]"
      by (subst str_nat.simps) simp
    show ?thesis
    proof (cases "b < 10")
      case b: True
      then have "str_nat b = [digit_char b]" by (subst str_nat.simps) simp
      with sn "1.prems" str_nat_nonempty [of "n div 10"] show ?thesis by simp
    next
      case b: False
      then have sb: "str_nat b = str_nat (b div 10) @ [digit_char (b mod 10)]"
        by (subst str_nat.simps) simp
      from sn sb "1.prems" have e1: "str_nat (n div 10) = str_nat (b div 10)"
        and e2: "digit_char (n mod 10) = digit_char (b mod 10)" by simp_all
      from "1.IH" [OF False e1] have d: "n div 10 = b div 10" .
      from e2 have m: "n mod 10 = b mod 10" by (intro digit_char_inj) simp_all
      from d m show ?thesis by (metis div_mult_mod_eq)
    qed
  qed
qed

lemma placeholder_name_inj: "inj placeholder_name"
  by (rule injI) (simp add: placeholder_name_def str_nat_inj)


text \<open>The number of values that the first loop binds.\<close>

fun bound_count :: "(string \<rightharpoonup> string) \<Rightarrow> (string \<times> pyval) list \<Rightarrow> nat" where
  "bound_count fields_types [] = 0"
| "bound_count fields_types ((field, v) # rest) =
     (case fields_types field of
        None \<Rightarrow> bound_count fields_types rest
      | Some ftype \<Rightarrow>
          (if list_on_scalar_column ftype v then length (list_items v) else 1)
          + bound_count fields_types rest)"

lemma upt_split: "[i ..< i + a + b] = [i ..< i + a] @ [i + a ..< i + a + b]"
  by (metis le_add1 upt_add_eq_append add.assoc)

lemma filter_clauses_placeholders:
  "concat (map placeholders_of (filter_clauses E ft idx fs))
     = map placeholder_name [idx ..< idx + bound_count ft fs]"
proof (induction fs arbitrary: idx)
  case Nil
  then show ?case by simp
next
  case (Cons fv fs)
  obtain field v where fv: "fv = (field, v)" by (cases fv)
  show ?case
  proof (cases "ft field")
    case None
    with Cons fv show ?thesis by simp
  next
    case (Some ftype)
    show ?thesis
    proof (cases "list_on_scalar_column ftype v")
      case True
      have "[idx ..< idx + (length (list_items v) + bound_count ft fs)]
          = [idx ..< idx + length (list_items v)]
            @ [idx + length (list_items v) ..< idx + length (list_items v) + bound_count ft fs]"
        using upt_split [of idx "length (list_items v)" "bound_count ft fs"]
        by (simp add: add.assoc)
      with True Some fv Cons [of "idx + length (list_items v)"] show ?thesis
        by (simp add: Let_def)
    next
      case False
      let ?k = "bound_count ft fs"
      have bc: "bound_count ft (fv # fs) = Suc ?k"
        using False Some fv by simp
      have "concat (map placeholders_of (filter_clauses E ft idx (fv # fs)))
          = placeholder_name idx # concat (map placeholders_of (filter_clauses E ft (Suc idx) fs))"
        using False Some fv by (simp add: Let_def)
      also have "\<dots> = placeholder_name idx # map placeholder_name [Suc idx ..< Suc idx + ?k]"
        by (simp only: Cons)
      also have "\<dots> = map placeholder_name (idx # [Suc idx ..< Suc idx + ?k])"
        by simp
      also have "idx # [Suc idx ..< Suc idx + ?k] = [idx ..< idx + Suc ?k]"
        by (simp add: upt_conv_Cons del: upt_Suc)
      finally show ?thesis unfolding bc .
    qed
  qed
qed

lemma filter_clauses_distinct:
  "distinct (concat (map placeholders_of (filter_clauses E ft idx fs)))"
  unfolding filter_clauses_placeholders
  by (simp add: distinct_map placeholder_name_inj inj_on_def str_nat_inj placeholder_name_def)

lemma q_field_clauses_bare: "concat (map placeholders_of (q_field_clauses E ft lang items)) = []"
  by (induction items) (auto simp: Let_def split: option.splits)

lemma q_clauses_bare: "concat (map placeholders_of (q_clauses E ft dd)) = []"
  by (cases "q dd") (simp_all add: q_clauses_def q_field_clauses_bare del: concat_eq_Nil_conv)

lemma where_clauses_distinct:
  "distinct (concat (map placeholders_of (where_clauses E dd ft)))"
  by (simp add: where_clauses_def filter_clauses_distinct q_clauses_bare)

lemma append_single: "(@) [c] = (#) c"
  by (rule ext) simp

lemma is_array_type_prefix: "is_array_type t = prefix ''_'' t"
  by (cases t) (auto simp: is_array_type_def)

lemma list_on_scalar_column_PList:
  "list_on_scalar_column ftype (PList xs) = (\<not> prefix ''_'' ftype)"
  by (simp add: list_on_scalar_column_def is_array_type_prefix)

lemma list_on_scalar_column_other:
  "\<forall>xs. v \<noteq> PList xs \<Longrightarrow> \<not> list_on_scalar_column ftype v"
  by (cases v) (simp_all add: list_on_scalar_column_def)

lemma clause_for_list:
  assumes "ft field = Some ftype" "\<not> prefix ''_'' ftype"
    and "length ps = length xs"
  shows "clause_for E ft (field, PList xs)
     (Bound (sa_column E field @ '' in ('' @ join '','' (map (\<lambda>p. '':'' @ p) ps) @ '')'')
        (zip ps (if ftype = ''text'' then map (\<lambda>x. PStr (py_str E x)) xs else xs)))"
  using assms by (simp add: clause_for_def in_clause_def del: map_map)

lemma clause_for_equals:
  assumes "ft field = Some ftype" "(\<exists>xs. v = PList xs) \<longrightarrow> prefix ''_'' ftype"
  shows "clause_for E ft (field, v)
     (Bound (sa_column E field @ '' = :'' @ ph)
        [(ph, if ftype = ''text'' then PStr (py_str E v) else v)])"
  using assms by (cases v) (simp_all add: clause_for_def equals_clause_def)

lemma filter_clauses_shape:
  "list_all2 (clause_for E ft) (known_filters ft fs) (filter_clauses E ft idx fs)"
proof (induction fs arbitrary: idx)
  case Nil
  then show ?case by (simp add: known_filters_def)
next
  case (Cons fv fs)
  obtain field v where fv: "fv = (field, v)" by (cases fv)
  show ?case
  proof (cases "ft field")
    case None
    with Cons fv show ?thesis by (simp add: known_filters_def)
  next
    case (Some ftype)
    have k: "known_filters ft ((field, w) # fs) = (field, w) # known_filters ft fs" for w
      using Some by (simp add: known_filters_def)
    show ?thesis
    proof (cases "\<exists>xs. v = PList xs \<and> \<not> prefix ''_'' ftype")
      case True
      then obtain xs where v: "v = PList xs" and na: "\<not> prefix ''_'' ftype" by blast
      have t: "list_on_scalar_column ftype v"
        using v na by (simp add: list_on_scalar_column_PList)
      have c: "clause_for E ft (field, PList xs)
         (Bound (sa_column E field @ '' in (''
                   @ join '','' (map (\<lambda>p. '':'' @ p) (map placeholder_name [idx ..< idx + length xs]))
                   @ '')'')
            (zip (map placeholder_name [idx ..< idx + length xs])
               (if ftype = ''text'' then map (\<lambda>x. PStr (py_str E x)) xs else xs)))"
        using Some na by (intro clause_for_list) simp_all
      have step: "filter_clauses E ft idx ((field, PList xs) # fs) =
         Bound (sa_column E field @ '' in (''
                   @ join '','' (map (\<lambda>p. '':'' @ p) (map placeholder_name [idx ..< idx + length xs]))
                   @ '')'')
            (zip (map placeholder_name [idx ..< idx + length xs])
               (if ftype = ''text'' then map (\<lambda>x. PStr (py_str E x)) xs else xs))
         # filter_clauses E ft (idx + length xs) fs"
        using t Some v by (simp add: Let_def append_single)
      show ?thesis
        unfolding fv v k step using c Cons [of "idx + length xs"]
        by (simp only: list_all2_Cons simp_thms)
    next
      case False
      then have ar: "(\<exists>xs. v = PList xs) \<longrightarrow> prefix ''_'' ftype" by blast
      have t: "\<not> list_on_scalar_column ftype v"
      proof (cases "\<exists>xs. v = PList xs")
        case True
        with ar show ?thesis by (auto simp: list_on_scalar_column_PList)
      next
        case False
        then show ?thesis by (intro list_on_scalar_column_other) blast
      qed
      have step: "filter_clauses E ft idx ((field, v) # fs) =
         Bound (sa_column E field @ '' = :'' @ placeholder_name idx)
           [(placeholder_name idx, if ftype = ''text'' then PStr (py_str E v) else v)]
         # filter_clauses E ft (Suc idx) fs"
        using t Some by (simp add: Let_def)
      have c: "clause_for E ft (field, v)
         (Bound (sa_column E field @ '' = :'' @ placeholder_name idx)
           [(placeholder_name idx, if ftype = ''text'' then PStr (py_str E v) else v)])"
        using Some ar by (rule clause_for_equals)
      show ?thesis
        unfolding fv k step using c Cons [of "Suc idx"]
        by (simp only: list_all2_Cons simp_thms)
    qed
  qed
qed

lemma filter_clauses_length:
  "length (filter_clauses E ft idx fs) = length (known_filters ft fs)"
  using filter_clauses_shape [of E ft fs idx] by (rule list_all2_lengthD [symmetric])

lemma filter_clauses_known:
  "filter_clauses E ft idx (known_filters ft fs) = filter_clauses E ft idx fs"
  by (induction fs arbitrary: idx) (auto simp: known_filters_def Let_def split: option.splits)

lemma q_field_clauses_known:
  "q_field_clauses E ft lang (known_filters ft items) = q_field_clauses E ft lang items"
  by (induction items) (auto simp: known_filters_def Let_def split: option.splits)

text \<open>
  A sample of the outside of \<^verbatim>\<open>_where_clauses\<close>, used to run examples: column
  names that need no quoting are rendered as they are, \<^verbatim>\<open>str\<close> renders an
  integer in decimal and a string as itself, and text columns are the ones
  indexed for full-text search.
\<close>

definition sample_str :: "pyval \<Rightarrow> string" where
  "sample_str v =
     (case v of
        PStr s \<Rightarrow> s
      | PInt i \<Rightarrow> (if i < 0 then ''-'' @ str_nat (nat (- i)) else str_nat (nat i))
      | _ \<Rightarrow> [])"

definition sample_env :: where_env where
  "sample_env =
     \<lparr> sa_column = (\<lambda>f. f), py_str = sample_str,
       should_fts_index_field_type = (\<lambda>t. t = ''text''),
       default_fts_lang = ''english'' \<rparr>"

definition sample_fields_types :: "string \<rightharpoonup> string" where
  "sample_fields_types = [''_id'' \<mapsto> ''int'', ''a'' \<mapsto> ''int'', ''b'' \<mapsto> ''text'', ''c'' \<mapsto> ''_int'']"

definition sample_request :: where_request where
  "sample_request =
     \<lparr> filters = [(''a'', PList [PInt 1, PInt 2]), (''zzz'', PInt 3), (''b'', PInt 10),
                  (''c'', PList [PInt 4])],
       q = PDict [(''nope'', PStr ''x'')], full_text = PNone, language = None \<rparr>"

text \<open>
  Claim C3.  The clauses of the filters come first in the result, one for
  each pair on a known field and in the order of the pairs.  The clause of a
  list value on a column whose type is not an array type (a type name that
  starts with an underscore) is \<open>field in (:p1,:p2,...)\<close> with one placeholder
  for each element, any other is \<open>field = :p\<close>; on a column of type text the
  bound values are the string forms.  The clauses
  after them bind nothing, and no placeholder name occurs twice in the
  result.
\<close>

theorem C3_filter_clauses:
  "list_all2 (clause_for E ft) (known_filters ft (filters dd))
     (take (length (known_filters ft (filters dd))) (where_clauses E dd ft))
   \<and> concat (map placeholders_of
        (drop (length (known_filters ft (filters dd))) (where_clauses E dd ft))) = []
   \<and> distinct (concat (map placeholders_of (where_clauses E dd ft)))"
proof -
  let ?fc = "filter_clauses E ft 0 (filters dd)"
  let ?tail = "q_clauses E ft dd
     @ (if truthy (full_text dd) then [Bare (''_full_text @@ '' @ ts_query_alias None)] else [])"
  have w: "where_clauses E dd ft = ?fc @ ?tail"
    by (simp add: where_clauses_def)
  have len: "length ?fc = length (known_filters ft (filters dd))"
    by (rule filter_clauses_length)
  have t: "take (length (known_filters ft (filters dd))) (where_clauses E dd ft) = ?fc"
    unfolding w using len by simp
  have d: "drop (length (known_filters ft (filters dd))) (where_clauses E dd ft) = ?tail"
    unfolding w using len by simp
  have a: "list_all2 (clause_for E ft) (known_filters ft (filters dd))
     (take (length (known_filters ft (filters dd))) (where_clauses E dd ft))"
    unfolding t by (rule filter_clauses_shape)
  have b: "concat (map placeholders_of
        (drop (length (known_filters ft (filters dd))) (where_clauses E dd ft))) = []"
    unfolding d using q_clauses_bare [of E ft dd] by simp
  from a b where_clauses_distinct [of E dd ft] show ?thesis by blast
qed

lemma sample_where_clauses:
  "where_clauses sample_env sample_request sample_fields_types =
     [Bound ''a in (:value_0,:value_1)'' [(''value_0'', PInt 1), (''value_1'', PInt 2)],
      Bound ''b = :value_2'' [(''value_2'', PStr ''10'')],
      Bound ''c = :value_3'' [(''value_3'', PList [PInt 4])]]"
  by code_simp

theorem C3_filter_clauses_witness:
  "list_all2 (clause_for sample_env sample_fields_types)
     [(''a'', PList [PInt 1, PInt 2]), (''b'', PInt 10), (''c'', PList [PInt 4])]
     [Bound ''a in (:value_0,:value_1)'' [(''value_0'', PInt 1), (''value_1'', PInt 2)],
      Bound ''b = :value_2'' [(''value_2'', PStr ''10'')],
      Bound ''c = :value_3'' [(''value_3'', PList [PInt 4])]]
   \<and> distinct (concat (map placeholders_of
      [Bound ''a in (:value_0,:value_1)'' [(''value_0'', PInt 1), (''value_1'', PInt 2)],
       Bound ''b = :value_2'' [(''value_2'', PStr ''10'')],
       Bound ''c = :value_3'' [(''value_3'', PList [PInt 4])]]))"
proof -
  have k: "known_filters sample_fields_types (filters sample_request)
      = [(''a'', PList [PInt 1, PInt 2]), (''b'', PInt 10), (''c'', PList [PInt 4])]"
    by (simp add: known_filters_def sample_request_def sample_fields_types_def)
  from C3_filter_clauses [of sample_env sample_fields_types sample_request]
  show ?thesis unfolding sample_where_clauses k by simp
qed

text \<open>A dict \<open>q\<close> without its entries on unknown fields.\<close>

fun known_q :: "(string \<rightharpoonup> string) \<Rightarrow> pyval \<Rightarrow> pyval" where
  "known_q ft (PDict items) = PDict (known_filters ft items)"
| "known_q ft v = v"

lemma q_clauses_known:
  "q_clauses E ft (dd\<lparr>filters := fs, q := known_q ft (q dd)\<rparr>) = q_clauses E ft dd"
proof (cases "q dd")
  case (PDict items)
  have "q_field_clauses E ft lang [] = []" for lang by simp
  then show ?thesis
    using PDict q_field_clauses_known [of E ft "fts_lang E (language dd)" items]
    by (cases "known_filters ft items = []"; cases "items = []")
       (auto simp: q_clauses_def known_filters_def)
qed (simp_all add: q_clauses_def)

text \<open>
  Claim C9.  \<open>where_clauses\<close> has no error result, and its result is the one it
  gives for the request without the filter pairs and without the entries of
  a dict \<open>q\<close> whose field is not a key of \<open>fields_types\<close>: such a pair adds no
  clause and uses no placeholder.
\<close>

theorem C9_unknown_fields_skipped:
  "where_clauses E dd ft
     = where_clauses E (dd\<lparr>filters := known_filters ft (filters dd), q := known_q ft (q dd)\<rparr>) ft"
  unfolding where_clauses_def
  by (simp add: q_clauses_known filter_clauses_known)

theorem C9_unknown_fields_skipped_witness:
  "where_clauses sample_env sample_request sample_fields_types
     = where_clauses sample_env
         \<lparr> filters = [(''a'', PList [PInt 1, PInt 2]), (''b'', PInt 10), (''c'', PList [PInt 4])],
           q = PDict [], full_text = PNone, language = None \<rparr>
         sample_fields_types"
proof -
  have k: "known_filters sample_fields_types (filters sample_request)
      = [(''a'', PList [PInt 1, PInt 2]), (''b'', PInt 10), (''c'', PList [PInt 4])]"
    by (simp add: known_filters_def sample_request_def sample_fields_types_def)
  have kq: "known_q sample_fields_types (q sample_request) = PDict []"
    by (simp add: known_filters_def sample_request_def sample_fields_types_def)
  have r: "sample_request\<lparr>filters := [(''a'', PList [PInt 1, PInt 2]), (''b'', PInt 10),
        (''c'', PList [PInt 4])], q := PDict []\<rparr>
      = \<lparr> filters = [(''a'', PList [PInt 1, PInt 2]), (''b'', PInt 10), (''c'', PList [PInt 4])],
           q = PDict [], full_text = PNone, language = None \<rparr>"
    by (simp add: sample_request_def)
  show ?thesis
    using C9_unknown_fields_skipped [of sample_env sample_request sample_fields_types]
    unfolding k kq r .
qed

section \<open>SQL passthrough\<close>

text \<open>
  Source: \<^verbatim>\<open>search_sql\<close> and \<^verbatim>\<open>format_results\<close>.  \<^verbatim>\<open>data_dict\<close> is the request
  and becomes the response: \<^verbatim>\<open>search_sql\<close> reads its key \<^verbatim>\<open>sql\<close>, and
  \<^verbatim>\<open>format_results\<close> reads \<^verbatim>\<open>data_dict.get('records_truncated', False)\<close>, a key
  that \<^verbatim>\<open>search_sql\<close> writes only when the row count is the maximum plus one.
  So the request is modelled with both keys, \<open>None\<close> being an absent key.
\<close>

record sql_request =
  sql :: string
  records_truncated :: "pyval option"

text \<open>
  What comes from outside the file: the helper that extracts table and
  function names, the access check of the caller, the allow-list of the
  backend, \<^verbatim>\<open>str.lower\<close>, the configured \<^verbatim>\<open>ckan.datastore.search.rows_max\<close>, the
  engine and the conversion of a row to a record.  The engine is
  \<^verbatim>\<open>context['connection'].execute(sa.text(sql))\<close>: it is given the text of the
  statement and answers with the rows of that statement or with an error;
  \<^verbatim>\<open>results.rowcount\<close> is the number of rows it answers with.
\<close>

record ('row, 'rec) sql_env =
  get_names :: "string \<Rightarrow> string list \<times> string list"
  check_access :: "string list \<Rightarrow> bool"
  allowed_sql_functions :: "string list"
  py_lower :: "string \<Rightarrow> string"
  rows_max :: nat
  execute_text :: "string \<Rightarrow> string + 'row list"
  convert_row :: "'row \<Rightarrow> 'rec"

datatype sql_error = NotAuthorized string | EngineError string | IndexError

record 'rec sql_response =
  records :: "'rec list"
  truncated :: "pyval option"
  statement_text :: string

text \<open>\<^verbatim>\<open>'SELECT * FROM ({0}) AS blah LIMIT {1} ;'.format(sql, rows_max + 1)\<close>\<close>

definition wrap_sql :: "string \<Rightarrow> nat \<Rightarrow> string" where
  "wrap_sql s rmax = ''SELECT * FROM ('' @ s @ '') AS blah LIMIT '' @ str_nat (rmax + 1) @ '' ;''"

definition flag_on :: "pyval option \<Rightarrow> bool" where
  "flag_on f = (case f of None \<Rightarrow> False | Some v \<Rightarrow> truthy v)"

text \<open>The loop over the function names: the first name neither of whose two
  variants is allowed.\<close>

fun first_forbidden :: "('row, 'rec) sql_env \<Rightarrow> string list \<Rightarrow> string option" where
  "first_forbidden E [] = None"
| "first_forbidden E (f # fs) =
     (if py_lower E f \<in> set (allowed_sql_functions E)
         \<or> ([DQUOTE] @ f @ [DQUOTE]) \<in> set (allowed_sql_functions E)
      then first_forbidden E fs else Some f)"

text \<open>
  \<^verbatim>\<open>format_results\<close>: the rows converted, the last one removed when the dict
  holds a true \<^verbatim>\<open>records_truncated\<close>; \<^verbatim>\<open>list.pop\<close> on an empty list raises
  \<^verbatim>\<open>IndexError\<close>.
\<close>

definition format_results ::
  "('row, 'rec) sql_env \<Rightarrow> 'row list \<Rightarrow> string \<Rightarrow> sql_request \<Rightarrow> sql_error + 'rec sql_response" where
  "format_results E results text data_dict =
     (let recs = map (convert_row E) results
      in if flag_on (records_truncated data_dict) then
           (if recs = [] then Inl IndexError
            else Inr \<lparr> records = butlast recs, truncated = records_truncated data_dict,
                       statement_text = text \<rparr>)
         else Inr \<lparr> records = recs, truncated = records_truncated data_dict,
                    statement_text = text \<rparr>)"

text \<open>
  \<^verbatim>\<open>search_sql\<close>: the wrapped text is what the name helper and the engine are
  given; the key \<^verbatim>\<open>records_truncated\<close> is written only when the row count is
  the maximum plus one, and is otherwise left as the request has it.
\<close>

definition search_sql ::
  "('row, 'rec) sql_env \<Rightarrow> sql_request \<Rightarrow> sql_error + 'rec sql_response" where
  "search_sql E data_dict =
     (let text = wrap_sql (sql data_dict) (rows_max E);
          table_names = fst (get_names E text);
          function_names = snd (get_names E text)
      in if list_ex (prefix ''pg_'') table_names
         then Inl (NotAuthorized ''Not authorized to access system tables'')
         else if \<not> check_access E table_names
         then Inl (NotAuthorized ''Access denied'')
         else (case first_forbidden E function_names of
                 Some f \<Rightarrow> Inl (NotAuthorized (''Not authorized to call function '' @ f))
               | None \<Rightarrow>
                   (case execute_text E text of
                      Inl e \<Rightarrow> Inl (EngineError e)
                    | Inr results \<Rightarrow>
                        format_results E results text
                          (if length results = rows_max E + 1
                           then data_dict\<lparr>records_truncated := Some (PBool True)\<rparr>
                           else data_dict))))"

text \<open>The three checks before the statement is sent all pass.\<close>

definition sql_authorized :: "('row, 'rec) sql_env \<Rightarrow> sql_request \<Rightarrow> bool" where
  "sql_authorized E data_dict =
     (let names = get_names E (wrap_sql (sql data_dict) (rows_max E))
      in \<not> list_ex (prefix ''pg_'') (fst names) \<and> check_access E (fst names)
         \<and> first_forbidden E (snd names) = None)"

text \<open>
  A sample of the outside, with a maximum of two rows: an engine that holds
  a table \<^verbatim>\<open>res1\<close> of four rows and answers three statements, each with the
  rows that statement selects, and refuses every other text.
\<close>

definition sample_execute :: "string \<Rightarrow> string + string list" where
  "sample_execute t =
     (if t = ''SELECT * FROM (SELECT 1) AS blah LIMIT 3 ;'' then Inr [''1'']
      else if t = ''SELECT * FROM (SELECT x FROM res1 WHERE false) AS blah LIMIT 3 ;'' then Inr []
      else if t = ''SELECT * FROM (SELECT x FROM res1) AS blah LIMIT 3 ;''
      then Inr [''r1'', ''r2'', ''r3'']
      else Inl ''syntax error'')"

definition sample_sql_env :: "(string, string) sql_env" where
  "sample_sql_env =
     \<lparr> get_names = (\<lambda>_. ([''res1''], [''count''])), check_access = (\<lambda>_. True),
       allowed_sql_functions = [''count'', ''upper''], py_lower = (\<lambda>f. f), rows_max = 2,
       execute_text = sample_execute, convert_row = (\<lambda>r. r) \<rparr>"

text \<open>
  On a request that does not carry a true \<^verbatim>\<open>records_truncated\<close> and passes the
  three checks, when the engine answers the wrapped statement with rows:
  the statement sent is the caller's SQL as a subquery with LIMIT maximum
  plus one, the flag is on exactly when the statement returns maximum plus
  one rows, the surplus row is then the one removed, and the records do not
  exceed the maximum when the engine returns no more rows than the LIMIT of
  the statement allows.
\<close>

lemma search_sql_fresh:
  assumes fresh: "\<not> flag_on (records_truncated dd)"
    and auth: "sql_authorized E dd"
    and rows: "execute_text E (wrap_sql (sql dd) (rows_max E)) = Inr rows"
  shows "\<exists>res. search_sql E dd = Inr res
    \<and> statement_text res = wrap_sql (sql dd) (rows_max E)
    \<and> flag_on (truncated res) = (length rows = rows_max E + 1)
    \<and> records res = map (convert_row E) (if length rows = rows_max E + 1 then butlast rows else rows)
    \<and> (length rows \<le> rows_max E + 1 \<longrightarrow> length (records res) \<le> rows_max E)"
proof (cases "length rows = rows_max E + 1")
  case True
  then have ne: "rows \<noteq> []" by auto
  show ?thesis
    using auth rows True ne fresh
    by (simp add: search_sql_def sql_authorized_def Let_def
        format_results_def flag_on_def map_butlast)
next
  case False
  show ?thesis
    using auth rows False fresh
    by (simp add: search_sql_def sql_authorized_def Let_def format_results_def)
qed

lemma search_sql_fresh_sample:
  "search_sql sample_sql_env \<lparr> sql = ''SELECT x FROM res1'', records_truncated = None \<rparr>
     = Inr \<lparr> records = [''r1'', ''r2''], truncated = Some (PBool True),
             statement_text = ''SELECT * FROM (SELECT x FROM res1) AS blah LIMIT 3 ;'' \<rparr>"
  by code_simp

text \<open>
  Claim C8 holds on a request without the key \<^verbatim>\<open>records_truncated\<close>, and the
  code departs from it on a request that carries the key, since \<^verbatim>\<open>data_dict\<close>
  is the request and the response at once and \<^verbatim>\<open>format_results\<close> reads the key
  with \<^verbatim>\<open>data_dict.get('records_truncated', False)\<close>.  With a maximum of 2 the
  statement \<^verbatim>\<open>SELECT 1\<close> is wrapped with LIMIT 3 and the engine returns one row,
  so \<^verbatim>\<open>search_sql\<close> does not set the flag; yet the response has the flag on and
  no record: the one row of the result was removed as if it were the surplus
  row.  When the wrapped statement returns no row at all, the same request
  ends in the \<^verbatim>\<open>IndexError\<close> of \<^verbatim>\<open>pop\<close> on an empty list.
\<close>

theorem C8_request_flag_divergence:
  "execute_text sample_sql_env (wrap_sql ''SELECT 1'' (rows_max sample_sql_env)) = Inr [''1'']
   \<and> search_sql sample_sql_env \<lparr> sql = ''SELECT 1'', records_truncated = Some (PBool True) \<rparr>
       = Inr \<lparr> records = [], truncated = Some (PBool True),
               statement_text = ''SELECT * FROM (SELECT 1) AS blah LIMIT 3 ;'' \<rparr>
   \<and> execute_text sample_sql_env
         (wrap_sql ''SELECT x FROM res1 WHERE false'' (rows_max sample_sql_env)) = Inr []
   \<and> search_sql sample_sql_env
         \<lparr> sql = ''SELECT x FROM res1 WHERE false'', records_truncated = Some (PBool True) \<rparr>
       = Inl IndexError"
  by code_simp

section \<open>Write engine\<close>

text \<open>
  Source: \<^verbatim>\<open>_get_fields\<close>, \<^verbatim>\<open>_get_unique_key\<close>, \<^verbatim>\<open>_validate_record\<close>,
  \<^verbatim>\<open>upsert_data\<close> and \<^verbatim>\<open>upsert\<close>.

  A record of a request is a JSON object: a dict from column names to
  values, kept as an association list in the order of its keys.  After the
  marshalling step a value is either the value of the request or the tuple
  \<^verbatim>\<open>(json.dumps(value), '')\<close> of a nested column.
\<close>

type_synonym pyrecord = "(string \<times> pyval) list"

datatype sqlval = Plain pyval | Nested string

record field =
  field_id :: string
  field_type :: string

text \<open>
  The statements sent over the connection, by their parts.  The relational
  engine is outside the repository: it is a parameter, a state \<open>'db\<close> with the
  cursor description of a table (column names and type names, or the error
  of a missing table), the columns of its unique indexes that are not
  primary, and the execution of a writing statement, which gives the next
  state and the row count or a \<^verbatim>\<open>DatabaseError\<close>.
\<close>

datatype stmt =
    SetLocalTimeout nat
  | SelectColumns string
  | SelectUniqueKey string
  | InsertRows string "string list" "(string \<times> sqlval) list list"
  | UpdateRow string "string list" "string list" string string "(string \<times> sqlval) list"
  | InsertIfAbsent string "string list" "string list" string string "(string \<times> sqlval) list"

record 'db engine =
  describe :: "'db \<Rightarrow> string \<Rightarrow> string + (string \<times> string) list"
  unique_key_of :: "'db \<Rightarrow> string \<Rightarrow> string list"
  run :: "'db \<Rightarrow> stmt \<Rightarrow> string + ('db \<times> nat)"
  json_dumps :: "pyval \<Rightarrow> string"
  str_lower :: "string \<Rightarrow> string"

text \<open>The connection inside the transaction: the state of the engine and the
  statements sent so far.\<close>

record 'db conn =
  db :: 'db
  sent :: "stmt list"

text \<open>
  The errors: the first six are the \<^verbatim>\<open>ValidationError\<close>s that \<^verbatim>\<open>upsert_data\<close>
  raises (unique key must be passed; key fields missing; fields do not
  exist; key not found; a row with extra keys; the summary of a
  \<^verbatim>\<open>DatabaseError\<close> with the row number); the last is an exception of the
  engine that \<^verbatim>\<open>upsert_data\<close> does not catch.
\<close>

datatype write_error =
    UniqueKeyRequired
  | KeyFieldsMissing "string list"
  | FieldsDoNotExist "string list"
  | KeyNotFound "(string \<times> sqlval) list"
  | ExtraKeys nat "string list"
  | RecordsRowError string int
  | EngineFailure string

fun is_validation_error :: "write_error \<Rightarrow> bool" where
  "is_validation_error (EngineFailure _) = False"
| "is_validation_error _ = True"

text \<open>The keys of \<^verbatim>\<open>data_dict\<close> that are read: \<^verbatim>\<open>resource_id\<close>, \<^verbatim>\<open>method\<close> (here
  \<open>method_name\<close>; absent is \<open>None\<close>), \<^verbatim>\<open>records\<close> (absent is \<open>None\<close>) and \<^verbatim>\<open>dry_run\<close>.\<close>

record upsert_request =
  resource_id :: string
  method_name :: "string option"
  request_records :: "pyrecord list option"
  dry_run :: bool

definition send :: "'db conn \<Rightarrow> stmt \<Rightarrow> 'db conn" where
  "send C st = C\<lparr>sent := sent C @ [st]\<rparr>"

definition starts_with_underscore :: "string \<Rightarrow> bool" where
  "starts_with_underscore n = (case n of [] \<Rightarrow> False | c # _ \<Rightarrow> c = CHR ''_'')"

text \<open>\<^verbatim>\<open>_get_fields\<close>: one SELECT, then the columns whose name does not start
  with an underscore, as fields.\<close>

definition visible_fields :: "(string \<times> string) list \<Rightarrow> field list" where
  "visible_fields cols =
     map (\<lambda>c. \<lparr>field_id = fst c, field_type = snd c\<rparr>)
       (filter (\<lambda>c. \<not> starts_with_underscore (fst c)) cols)"

definition get_fields :: "'db engine \<Rightarrow> 'db conn \<Rightarrow> string \<Rightarrow> 'db conn \<times> (string + field list)" where
  "get_fields E C res =
     (send C (SelectColumns res),
      case describe E (db C) res of
        Inl e \<Rightarrow> Inl e
      | Inr cols \<Rightarrow> Inr (visible_fields cols))"

definition get_unique_key :: "'db engine \<Rightarrow> 'db conn \<Rightarrow> string \<Rightarrow> 'db conn \<times> string list" where
  "get_unique_key E C res = (send C (SelectUniqueKey res), unique_key_of E (db C) res)"

definition val_name :: "nat \<Rightarrow> string" where
  "val_name i = ''val_'' @ str_nat i"

text \<open>The marshalling of one value for a column of the given type.\<close>

definition marshal :: "'db engine \<Rightarrow> string \<Rightarrow> pyval \<Rightarrow> sqlval" where
  "marshal E ftype v =
     (if v \<noteq> PNone \<and> str_lower E ftype = ''nested'' then Nested (json_dumps E v)
      else if v = PStr [] \<and> ftype \<noteq> ''text'' then Plain PNone
      else Plain v)"

text \<open>\<^verbatim>\<open>_validate_record\<close> on a dict: the keys that are not field names.\<close>

definition validate_record :: "pyrecord \<Rightarrow> nat \<Rightarrow> string list \<Rightarrow> write_error option" where
  "validate_record r num field_names =
     (let extra_keys = filter (\<lambda>k. k \<notin> set field_names) (map fst r)
      in if extra_keys \<noteq> [] then Some (ExtraKeys (num + 1) extra_keys) else None)"

definition insert_row :: "'db engine \<Rightarrow> field list \<Rightarrow> pyrecord \<Rightarrow> (string \<times> sqlval) list" where
  "insert_row E flds r =
     map (\<lambda>(idx, f). (val_name idx,
            marshal E (field_type f) (case map_of r (field_id f) of None \<Rightarrow> PNone | Some v \<Rightarrow> v)))
       (zip [0 ..< length flds] flds)"

fun insert_rows ::
  "'db engine \<Rightarrow> field list \<Rightarrow> nat \<Rightarrow> pyrecord list \<Rightarrow> write_error + (string \<times> sqlval) list list" where
  "insert_rows E flds num [] = Inr []"
| "insert_rows E flds num (r # rs) =
     (case validate_record r num (map field_id flds) of
        Some e \<Rightarrow> Inl e
      | None \<Rightarrow>
          (case insert_rows E flds (Suc num) rs of
             Inl e \<Rightarrow> Inl e
           | Inr rows \<Rightarrow> Inr (insert_row E flds r # rows)))"

text \<open>
  The marshalling loop of the update path writes into the record itself, and
  only under keys the record has.
\<close>

definition marshal_record :: "'db engine \<Rightarrow> field list \<Rightarrow> pyrecord \<Rightarrow> (string \<times> sqlval) list" where
  "marshal_record E flds r =
     map (\<lambda>(k, v). (k, case find (\<lambda>f. field_id f = k) flds of
                           None \<Rightarrow> Plain v
                         | Some f \<Rightarrow> marshal E (field_type f) v)) r"

text \<open>The check of the key at the head of the loop body.\<close>

definition check_key :: "string list \<Rightarrow> pyrecord \<Rightarrow> write_error option" where
  "check_key unique_keys r =
     (if unique_keys = [] \<and> ''_id'' \<notin> set (map fst r) then Some UniqueKeyRequired
      else if ''_id'' \<notin> set (map fst r) then
        (let missing_fields = filter (\<lambda>f. f \<notin> set (map fst r)) unique_keys
         in if missing_fields \<noteq> [] then Some (KeyFieldsMissing missing_fields) else None)
      else None)"

text \<open>The parts of the statement of one record: used column names, value
  placeholders with a colon, the key expression, the key placeholders, the
  bound values of the key, and all bound values.\<close>

record stmt_parts =
  used_field_names :: "string list"
  value_refs :: "string list"
  pk_sql :: string
  pk_values_sql :: string
  unique_values :: "(string \<times> sqlval) list"
  all_values :: "(string \<times> sqlval) list"

definition lookup_val :: "(string \<times> sqlval) list \<Rightarrow> string \<Rightarrow> sqlval" where
  "lookup_val r k = (case map_of r k of None \<Rightarrow> Plain PNone | Some v \<Rightarrow> v)"

definition build_parts :: "field list \<Rightarrow> string list \<Rightarrow> (string \<times> sqlval) list \<Rightarrow> stmt_parts" where
  "build_parts flds unique_keys r =
     (let used = filter (\<lambda>n. n \<in> set (map fst r)) (map field_id flds);
          value_placeholders = map val_name [0 ..< length used];
          used_values = zip value_placeholders (map (lookup_val r) used);
          n = length used
      in if ''_id'' \<in> set (map fst r) then
           \<lparr> used_field_names = used, value_refs = map (\<lambda>p. '':'' @ p) value_placeholders,
             pk_sql = [DQUOTE] @ ''_id'' @ [DQUOTE], pk_values_sql = '':'' @ val_name n,
             unique_values = [(val_name n, lookup_val r ''_id'')],
             all_values = used_values @ [(val_name n, lookup_val r ''_id'')] \<rparr>
         else
           (let placeholders = map val_name [n ..< n + length unique_keys];
                uv = zip placeholders (map (lookup_val r) unique_keys)
            in \<lparr> used_field_names = used, value_refs = map (\<lambda>p. '':'' @ p) value_placeholders,
                 pk_sql = join '','' (map identifier_pg unique_keys),
                 pk_values_sql = join '','' (map (\<lambda>p. '':'' @ p) placeholders),
                 unique_values = uv, all_values = used_values @ uv \<rparr>))"

text \<open>The checks of one record before its statement is built.\<close>

definition prepare_record ::
  "'db engine \<Rightarrow> field list \<Rightarrow> string list \<Rightarrow> pyrecord \<Rightarrow> write_error + stmt_parts" where
  "prepare_record E flds unique_keys r =
     (case check_key unique_keys r of
        Some e \<Rightarrow> Inl e
      | None \<Rightarrow>
          (let non_existing_field_names =
                 filter (\<lambda>k. k \<notin> set (map field_id flds) \<and> k \<noteq> ''_id'') (map fst r)
           in if non_existing_field_names \<noteq> [] then Inl (FieldsDoNotExist non_existing_field_names)
              else Inr (build_parts flds unique_keys (marshal_record E flds r))))"

text \<open>One pass of the loop body for \<^verbatim>\<open>update\<close> and for \<^verbatim>\<open>upsert\<close>.\<close>

definition update_stmt :: "string \<Rightarrow> stmt_parts \<Rightarrow> stmt" where
  "update_stmt res p =
     UpdateRow res (used_field_names p) (value_refs p) (pk_sql p) (pk_values_sql p) (all_values p)"

definition update_record ::
  "'db engine \<Rightarrow> string \<Rightarrow> field list \<Rightarrow> string list \<Rightarrow> 'db conn \<Rightarrow> nat \<Rightarrow> pyrecord
     \<Rightarrow> 'db conn \<times> write_error option" where
  "update_record E res flds unique_keys C num r =
     (case prepare_record E flds unique_keys r of
        Inl e \<Rightarrow> (C, Some e)
      | Inr p \<Rightarrow>
          (let st = update_stmt res p
           in case run E (db C) st of
                Inl err \<Rightarrow> (send C st, Some (RecordsRowError err (int num)))
              | Inr (d, rowcount) \<Rightarrow>
                  if rowcount \<noteq> 1 then (send (C\<lparr>db := d\<rparr>) st, Some (KeyNotFound (unique_values p)))
                  else (send (C\<lparr>db := d\<rparr>) st, None)))"

definition upsert_record ::
  "'db engine \<Rightarrow> string \<Rightarrow> field list \<Rightarrow> string list \<Rightarrow> 'db conn \<Rightarrow> nat \<Rightarrow> pyrecord
     \<Rightarrow> 'db conn \<times> write_error option" where
  "upsert_record E res flds unique_keys C num r =
     (case prepare_record E flds unique_keys r of
        Inl e \<Rightarrow> (C, Some e)
      | Inr p \<Rightarrow>
          (let values' = map (\<lambda>(ph, n). if (case find (\<lambda>f. field_id f = n) flds of
                                              None \<Rightarrow> False | Some f \<Rightarrow> field_type f = ''nested'')
                                       then ''cast('' @ ph @ '' as nested)'' else ph)
                            (zip (value_refs p) (used_field_names p));
               st1 = UpdateRow res (used_field_names p) values' (pk_sql p)
                       (pk_values_sql p) (all_values p);
               st2 = InsertIfAbsent res (used_field_names p) values' (pk_sql p)
                       (pk_values_sql p) (all_values p)
           in case run E (db C) st1 of
                Inl err \<Rightarrow> (send C st1, Some (RecordsRowError err (int num)))
              | Inr (d1, _) \<Rightarrow>
                  (case run E d1 st2 of
                     Inl err \<Rightarrow>
                       (send (send (C\<lparr>db := d1\<rparr>) st1) st2, Some (RecordsRowError err (int num)))
                   | Inr (d2, _) \<Rightarrow> (send (send (C\<lparr>db := d2\<rparr>) st1) st2, None))))"

text \<open>The loop \<^verbatim>\<open>for num, record in enumerate(records)\<close>, left at the first error.\<close>

fun each_record ::
  "('db conn \<Rightarrow> nat \<Rightarrow> pyrecord \<Rightarrow> 'db conn \<times> write_error option) \<Rightarrow> 'db conn \<Rightarrow> nat
     \<Rightarrow> pyrecord list \<Rightarrow> 'db conn \<times> write_error option" where
  "each_record body C num [] = (C, None)"
| "each_record body C num (r # rs) =
     (case body C num r of
        (C', Some e) \<Rightarrow> (C', Some e)
      | (C', None) \<Rightarrow> each_record body C' (Suc num) rs)"

definition upsert_data :: "'db engine \<Rightarrow> 'db conn \<Rightarrow> upsert_request \<Rightarrow> 'db conn \<times> write_error option" where
  "upsert_data E C data_dict =
     (case request_records data_dict of
        None \<Rightarrow> (C, None)
      | Some recs \<Rightarrow>
          if recs = [] then (C, None)
          else
            (let meth = (case method_name data_dict of None \<Rightarrow> ''upsert'' | Some m \<Rightarrow> m);
                 res = resource_id data_dict
             in case get_fields E C res of
                  (C1, Inl e) \<Rightarrow> (C1, Some (EngineFailure e))
                | (C1, Inr flds) \<Rightarrow>
                    (let sql_columns = join '', '' (map (\<lambda>f. identifier_pg (field_id f)) flds)
                     in if sql_columns = [] then (C1, None)
                        else if meth = ''insert'' then
                          (case insert_rows E flds 0 recs of
                             Inl e \<Rightarrow> (C1, Some e)
                           | Inr rows \<Rightarrow>
                               (let st = InsertRows res (map field_id flds) rows
                                in case run E (db C1) st of
                                     Inl err \<Rightarrow>
                                       (send C1 st, Some (RecordsRowError err (int (length recs) - 1)))
                                   | Inr (d, _) \<Rightarrow> (send (C1\<lparr>db := d\<rparr>) st, None)))
                        else if meth = ''update'' \<or> meth = ''upsert'' then
                          (case get_unique_key E C1 res of
                             (C2, unique_keys) \<Rightarrow>
                               each_record
                                 (if meth = ''update''
                                  then update_record E res flds unique_keys
                                  else upsert_record E res flds unique_keys)
                                 C2 0 recs)
                        else (C1, None))))"

text \<open>
  \<^verbatim>\<open>upsert\<close>: the transaction around \<^verbatim>\<open>upsert_data\<close>.  The state that the
  call leaves is the committed one, or the state at \<^verbatim>\<open>begin\<close> after a
  rollback (on a dry run, and on every exception: the connection is closed
  with the transaction open).  The result carries the statements sent.
\<close>

definition upsert ::
  "'db engine \<Rightarrow> nat \<Rightarrow> 'db \<Rightarrow> upsert_request \<Rightarrow> 'db \<times> stmt list \<times> write_error option" where
  "upsert E timeout d0 data_dict =
     (let C0 = send \<lparr>db = d0, sent = []\<rparr> (SetLocalTimeout timeout)
      in case upsert_data E C0 data_dict of
           (C, Some e) \<Rightarrow> (d0, sent C, Some e)
         | (C, None) \<Rightarrow>
             if dry_run data_dict then (d0, sent C, None) else (db C, sent C, None))"

text \<open>The loop body that the method selects.\<close>

definition loop_body ::
  "'db engine \<Rightarrow> string \<Rightarrow> string \<Rightarrow> field list \<Rightarrow> string list \<Rightarrow> 'db conn \<Rightarrow> nat \<Rightarrow> pyrecord
     \<Rightarrow> 'db conn \<times> write_error option" where
  "loop_body E meth res flds uk =
     (if meth = ''update'' then update_record E res flds uk else upsert_record E res flds uk)"

text \<open>
  A sample of the engine, used to run examples: a table is known by the
  \<open>_id\<close>s of its rows, an update touches the rows whose \<open>_id\<close> is the last
  bound value, and the columns and the unique key are those given.
\<close>

definition sample_run :: "int list \<Rightarrow> stmt \<Rightarrow> string + (int list \<times> nat)" where
  "sample_run d st =
     (case st of
        UpdateRow res cols vals pk pkv params \<Rightarrow>
          (if params = [] then Inr (d, 0)
           else (case snd (last params) of
                   Plain (PInt i) \<Rightarrow> Inr (d, length (filter (\<lambda>x. x = i) d))
                 | _ \<Rightarrow> Inr (d, 0)))
      | InsertRows res cols rows \<Rightarrow> Inr (d, length rows)
      | _ \<Rightarrow> Inr (d, 0))"

definition sample_engine :: "(string \<times> string) list \<Rightarrow> string list \<Rightarrow> int list engine" where
  "sample_engine cols uk =
     \<lparr> describe = (\<lambda>d res. Inr cols), unique_key_of = (\<lambda>d res. uk), run = sample_run,
       json_dumps = (\<lambda>v. ''{}''), str_lower = (\<lambda>t. t) \<rparr>"

definition no_columns :: "(string \<times> string) list" where
  "no_columns = [(''_id'', ''int4''), (''_full_text'', ''tsvector'')]"

lemma join_nonempty: "x \<noteq> [] \<Longrightarrow> join sep (x # xs) \<noteq> []"
  by (cases xs) simp_all

lemma identifier_pg_nonempty: "identifier_pg s \<noteq> []"
  by (simp add: identifier_pg_def)

lemma sql_columns_empty:
  "(join '', '' (map (\<lambda>f. identifier_pg (field_id f)) flds) = []) = (flds = [])"
  by (cases flds) (simp_all add: join_nonempty identifier_pg_nonempty)


lemma each_record_rejects:
  assumes "r \<in> set recs" and "\<And>C n. snd (body C n r) \<noteq> None"
  shows "snd (each_record body C num recs) \<noteq> None"
  using assms(1)
proof (induction recs arbitrary: C num)
  case Nil
  then show ?case by simp
next
  case (Cons x xs)
  show ?case
  proof (cases "body C num x")
    case (Pair C' res)
    show ?thesis
    proof (cases res)
      case None
      with Pair assms(2) [of C num] have "x \<noteq> r" by auto
      with Cons.prems have "r \<in> set xs" by simp
      from Cons.IH [OF this] Pair None show ?thesis by simp
    next
      case (Some e)
      with Pair show ?thesis by simp
    qed
  qed
qed

lemma each_record_validation:
  assumes "\<And>C n r e. snd (body C n r) = Some e \<Longrightarrow> is_validation_error e"
    and "snd (each_record body C num recs) = Some e"
  shows "is_validation_error e"
  using assms(2)
proof (induction recs arbitrary: C num)
  case Nil
  then show ?case by simp
next
  case (Cons x xs)
  show ?case
  proof (cases "body C num x")
    case (Pair C' res)
    show ?thesis
    proof (cases res)
      case None
      with Pair Cons.prems have "snd (each_record body C' (Suc num) xs) = Some e" by simp
      from Cons.IH [OF this] show ?thesis .
    next
      case (Some e')
      with Pair Cons.prems have "e' = e" by simp
      with Some Pair assms(1) [of C num x e] show ?thesis by simp
    qed
  qed
qed

lemma prepare_record_validation:
  "prepare_record E flds uk r = Inl e \<Longrightarrow> is_validation_error e"
  by (auto simp: prepare_record_def check_key_def Let_def split: option.splits if_splits)

lemma update_record_validation:
  "snd (update_record E res flds uk C n r) = Some e \<Longrightarrow> is_validation_error e"
  by (auto simp: update_record_def Let_def dest: prepare_record_validation
      split: sum.splits prod.splits if_splits)

lemma upsert_record_validation:
  "snd (upsert_record E res flds uk C n r) = Some e \<Longrightarrow> is_validation_error e"
  by (auto simp: upsert_record_def Let_def dest: prepare_record_validation
      split: sum.splits prod.splits if_splits)

lemma check_key_prepare:
  "check_key uk r = Some e \<Longrightarrow> prepare_record E flds uk r = Inl e"
  by (simp add: prepare_record_def)

lemma check_key_update:
  "check_key uk r = Some e \<Longrightarrow> update_record E res flds uk C n r = (C, Some e)"
  by (simp add: update_record_def check_key_prepare)

lemma check_key_upsert:
  "check_key uk r = Some e \<Longrightarrow> upsert_record E res flds uk C n r = (C, Some e)"
  by (simp add: upsert_record_def check_key_prepare)


lemma visible_fields_empty:
  "(visible_fields cols = []) = list_all (\<lambda>c. starts_with_underscore (fst c)) cols"
  by (induction cols) (simp_all add: visible_fields_def)

lemma get_fields_described:
  "describe E (db C) res = Inr cols \<Longrightarrow>
     get_fields E C res = (send C (SelectColumns res), Inr (visible_fields cols))"
  by (simp add: get_fields_def)

lemma loop_body_validation:
  "snd (loop_body E meth res flds uk C n r) = Some e \<Longrightarrow> is_validation_error e"
  by (auto simp: loop_body_def dest: update_record_validation upsert_record_validation
      split: if_splits)

lemma loop_body_check_key:
  "check_key uk r = Some e \<Longrightarrow> loop_body E meth res flds uk C n r = (C, Some e)"
  by (simp add: loop_body_def check_key_update check_key_upsert)

lemma upsert_data_loop:
  assumes d: "describe E (db C) (resource_id dd) = Inr cols"
    and c: "\<not> list_all (\<lambda>c. starts_with_underscore (fst c)) cols"
    and m: "method_name dd = None \<or> method_name dd = Some ''update'' \<or> method_name dd = Some ''upsert''"
    and rs: "request_records dd = Some recs" "recs \<noteq> []"
  shows "upsert_data E C dd =
         each_record
           (loop_body E (case method_name dd of None \<Rightarrow> ''upsert'' | Some x \<Rightarrow> x)
              (resource_id dd) (visible_fields cols) (unique_key_of E (db C) (resource_id dd)))
           (send (send C (SelectColumns (resource_id dd))) (SelectUniqueKey (resource_id dd)))
           0 recs"
proof -
  have f: "visible_fields cols \<noteq> []" using c by (simp add: visible_fields_empty)
  have q: "join '', '' (map (\<lambda>f. identifier_pg (field_id f)) (visible_fields cols)) \<noteq> []"
    using f by (simp add: sql_columns_empty)
  have dbs: "db (send C (SelectColumns (resource_id dd))) = db C" by (simp add: send_def)
  show ?thesis
    using m rs get_fields_described [OF d] q
    by (auto simp: upsert_data_def Let_def get_unique_key_def dbs loop_body_def)
qed

lemma check_key_lacking:
  assumes "''_id'' \<notin> set (map fst r)" "uk = [] \<or> \<not> set uk \<subseteq> set (map fst r)"
  shows "check_key uk r =
     Some (if uk = [] then UniqueKeyRequired
           else KeyFieldsMissing (filter (\<lambda>f. f \<notin> set (map fst r)) uk))"
proof (cases "uk = []")
  case True
  with assms show ?thesis by (simp add: check_key_def)
next
  case False
  with assms(2) have "\<not> set uk \<subseteq> set (map fst r)" by simp
  then have "filter (\<lambda>f. f \<notin> set (map fst r)) uk \<noteq> []"
    by (auto simp: filter_empty_conv)
  with False assms(1) show ?thesis by (simp add: check_key_def Let_def)
qed

text \<open>
  Claim C10, as stated, fails for a resource with no columns: before it
  returns, \<^verbatim>\<open>upsert_data\<close> has sent the SELECT of \<^verbatim>\<open>_get_fields\<close> that tells
  it so.
\<close>

theorem C10_column_lookup_counterexample:
  "sent (fst (upsert_data (sample_engine no_columns []) \<lparr>db = [], sent = []\<rparr>
      \<lparr> resource_id = ''res1'', method_name = Some ''insert'',
        request_records = Some [[(''a'', PInt 1)]], dry_run = False \<rparr>))
    = [SelectColumns ''res1'']"
  by (simp add: upsert_data_def sample_engine_def no_columns_def get_fields_def send_def
      starts_with_underscore_def visible_fields_def Let_def)

text \<open>
  Claim C10, amended.  With the records missing or empty, \<^verbatim>\<open>upsert_data\<close>
  returns at once: it sends nothing, leaves the state of the engine as it
  was and gives no error, whatever the method.  With records, on a resource
  whose columns all start with an underscore (no column of its own), it
  sends the one SELECT that reads the columns and returns, the state
  unchanged and without error.
\<close>

theorem C10_no_write:
  "(request_records dd = None \<or> request_records dd = Some [] \<longrightarrow> upsert_data E C dd = (C, None))
   \<and> (request_records dd = Some recs \<and> recs \<noteq> []
        \<and> describe E (db C) (resource_id dd) = Inr cols
        \<and> list_all (\<lambda>c. starts_with_underscore (fst c)) cols
       \<longrightarrow> upsert_data E C dd = (C\<lparr>sent := sent C @ [SelectColumns (resource_id dd)]\<rparr>, None))"
proof -
  have a: "request_records dd = None \<or> request_records dd = Some [] \<longrightarrow> upsert_data E C dd = (C, None)"
    by (auto simp: upsert_data_def)
  have b: "request_records dd = Some recs \<and> recs \<noteq> []
        \<and> describe E (db C) (resource_id dd) = Inr cols
        \<and> list_all (\<lambda>c. starts_with_underscore (fst c)) cols
       \<longrightarrow> upsert_data E C dd = (C\<lparr>sent := sent C @ [SelectColumns (resource_id dd)]\<rparr>, None)"
  proof (intro impI, elim conjE)
    assume r: "request_records dd = Some recs" "recs \<noteq> []"
      and d: "describe E (db C) (resource_id dd) = Inr cols"
        "list_all (\<lambda>c. starts_with_underscore (fst c)) cols"
    from d(2) have "visible_fields cols = []" by (simp add: visible_fields_empty)
    with get_fields_described [OF d(1)] r show
      "upsert_data E C dd = (C\<lparr>sent := sent C @ [SelectColumns (resource_id dd)]\<rparr>, None)"
      by (simp add: upsert_data_def Let_def send_def)
  qed
  from a b show ?thesis by blast
qed

theorem C10_no_write_witness:
  "upsert_data (sample_engine no_columns []) \<lparr>db = [1, 2], sent = []\<rparr>
      \<lparr> resource_id = ''res1'', method_name = Some ''update'', request_records = Some [],
        dry_run = False \<rparr>
     = (\<lparr>db = [1, 2], sent = []\<rparr>, None)
   \<and> upsert_data (sample_engine no_columns []) \<lparr>db = [1, 2], sent = []\<rparr>
      \<lparr> resource_id = ''res1'', method_name = Some ''insert'',
        request_records = Some [[(''a'', PInt 1)]], dry_run = False \<rparr>
     = (\<lparr>db = [1, 2], sent = [SelectColumns ''res1'']\<rparr>, None)"
  using C10_no_write [of "\<lparr> resource_id = ''res1'', method_name = Some ''update'',
        request_records = Some [], dry_run = False \<rparr>" "sample_engine no_columns []"
        "\<lparr>db = [1, 2], sent = []\<rparr>"]
    C10_no_write [of "\<lparr> resource_id = ''res1'', method_name = Some ''insert'',
        request_records = Some [[(''a'', PInt 1)]], dry_run = False \<rparr>"
        "sample_engine no_columns []" "\<lparr>db = [1, 2], sent = []\<rparr>" "[[(''a'', PInt 1)]]" no_columns]
  by (simp add: sample_engine_def no_columns_def starts_with_underscore_def)

text \<open>
  Claim C5, as stated, fails for a resource with no columns: an update whose
  record has no \<open>_id\<close>, on a resource without unique key, returns without
  error, because \<^verbatim>\<open>upsert_data\<close> returns before it looks at the records.
\<close>

theorem C5_no_columns_counterexample:
  "upsert (sample_engine no_columns []) 60000 []
      \<lparr> resource_id = ''res1'', method_name = Some ''update'',
        request_records = Some [[(''x'', PInt 1)]], dry_run = False \<rparr>
    = ([], [SetLocalTimeout 60000, SelectColumns ''res1''], None)
   \<and> check_key [] [(''x'', PInt 1)] = Some UniqueKeyRequired"
  by (simp add: upsert_def upsert_data_def sample_engine_def no_columns_def get_fields_def send_def
      starts_with_underscore_def visible_fields_def Let_def check_key_def)


text \<open>
  Claim C5, amended.  On a resource with at least one column, for an update
  or upsert call: a record without \<open>_id\<close> is rejected in the loop body before
  any statement is built, with the error that a unique key must be passed
  when the resource has none, and with the error naming the missing key
  fields when it omits some column of the unique key.  A call with such a
  record among its records ends in a validation error with the state rolled
  back; when the record is the first one, the error is that record's and
  only the two reading statements were sent.
\<close>

theorem C5_key_required:
  assumes d: "describe E d0 (resource_id dd) = Inr cols"
    and c: "\<not> list_all (\<lambda>c. starts_with_underscore (fst c)) cols"
    and m: "method_name dd = None \<or> method_name dd = Some ''update'' \<or> method_name dd = Some ''upsert''"
    and rs: "request_records dd = Some recs"
    and r: "r \<in> set recs"
    and noid: "''_id'' \<notin> set (map fst r)"
    and nokey: "unique_key_of E d0 (resource_id dd) = []
                \<or> \<not> set (unique_key_of E d0 (resource_id dd)) \<subseteq> set (map fst r)"
  shows "check_key (unique_key_of E d0 (resource_id dd)) r =
       Some (if unique_key_of E d0 (resource_id dd) = [] then UniqueKeyRequired
             else KeyFieldsMissing
                    (filter (\<lambda>f. f \<notin> set (map fst r)) (unique_key_of E d0 (resource_id dd))))
    \<and> update_record E res flds (unique_key_of E d0 (resource_id dd)) C n r
         = (C, check_key (unique_key_of E d0 (resource_id dd)) r)
    \<and> upsert_record E res flds (unique_key_of E d0 (resource_id dd)) C n r
         = (C, check_key (unique_key_of E d0 (resource_id dd)) r)
    \<and> (\<exists>snt e. upsert E t d0 dd = (d0, snt, Some e) \<and> is_validation_error e)
    \<and> (hd recs = r \<longrightarrow>
         upsert E t d0 dd =
           (d0, [SetLocalTimeout t, SelectColumns (resource_id dd), SelectUniqueKey (resource_id dd)],
            check_key (unique_key_of E d0 (resource_id dd)) r))"
proof -
  let ?uk = "unique_key_of E d0 (resource_id dd)"
  let ?C0 = "send \<lparr>db = d0, sent = []\<rparr> (SetLocalTimeout t)"
  let ?C2 = "send (send ?C0 (SelectColumns (resource_id dd))) (SelectUniqueKey (resource_id dd))"
  have ck: "check_key ?uk r =
       Some (if ?uk = [] then UniqueKeyRequired
             else KeyFieldsMissing (filter (\<lambda>f. f \<notin> set (map fst r)) ?uk))"
    by (rule check_key_lacking [OF noid nokey])
  then obtain e0 where e0: "check_key ?uk r = Some e0" by blast
  have u1: "update_record E res flds ?uk C n r = (C, check_key ?uk r)"
    using check_key_update [OF e0] e0 by simp
  have u2: "upsert_record E res flds ?uk C n r = (C, check_key ?uk r)"
    using check_key_upsert [OF e0] e0 by simp
  have ne: "recs \<noteq> []" using r by auto
  have db0: "db ?C0 = d0" by (simp add: send_def)
  from upsert_data_loop [of E ?C0 dd cols recs] d c m rs ne db0
  have loop: "upsert_data E ?C0 dd =
      each_record (loop_body E (case method_name dd of None \<Rightarrow> ''upsert'' | Some x \<Rightarrow> x)
         (resource_id dd) (visible_fields cols) ?uk) ?C2 0 recs"
    by auto
  let ?body = "loop_body E (case method_name dd of None \<Rightarrow> ''upsert'' | Some x \<Rightarrow> x)
     (resource_id dd) (visible_fields cols) ?uk"
  have "snd (each_record ?body ?C2 0 recs) \<noteq> None"
    by (rule each_record_rejects [OF r]) (simp add: loop_body_check_key [OF e0])
  then obtain e where e: "snd (each_record ?body ?C2 0 recs) = Some e" by auto
  have v: "is_validation_error e"
    by (rule each_record_validation [OF _ e]) (rule loop_body_validation)
  obtain Cf where cf: "each_record ?body ?C2 0 recs = (Cf, Some e)"
    using e by (cases "each_record ?body ?C2 0 recs") auto
  have whole: "\<exists>snt e. upsert E t d0 dd = (d0, snt, Some e) \<and> is_validation_error e"
    using loop cf v by (simp add: upsert_def Let_def)
  have first: "hd recs = r \<longrightarrow>
         upsert E t d0 dd =
           (d0, [SetLocalTimeout t, SelectColumns (resource_id dd), SelectUniqueKey (resource_id dd)],
            check_key ?uk r)"
  proof
    assume "hd recs = r"
    with ne obtain rest where rr: "recs = r # rest" by (cases recs) auto
    have "each_record ?body ?C2 0 recs = (?C2, Some e0)"
      unfolding rr by (simp add: loop_body_check_key [OF e0])
    with loop e0 show "upsert E t d0 dd =
           (d0, [SetLocalTimeout t, SelectColumns (resource_id dd), SelectUniqueKey (resource_id dd)],
            check_key ?uk r)"
      by (simp add: upsert_def Let_def send_def)
  qed
  from ck u1 u2 whole first show ?thesis by blast
qed

definition sample_columns :: "(string \<times> string) list" where
  "sample_columns = [(''_id'', ''int4''), (''_full_text'', ''tsvector''), (''email'', ''text''),
     (''n'', ''int4'')]"

theorem C5_key_required_witness:
  "upsert (sample_engine sample_columns [''email'']) 60000 [1, 2]
      \<lparr> resource_id = ''res1'', method_name = Some ''update'',
        request_records = Some [[(''n'', PInt 2)]], dry_run = False \<rparr>
    = ([1, 2], [SetLocalTimeout 60000, SelectColumns ''res1'', SelectUniqueKey ''res1''],
       Some (KeyFieldsMissing [''email'']))"
proof -
  let ?E = "sample_engine sample_columns [''email'']"
  let ?dd = "\<lparr> resource_id = ''res1'', method_name = Some ''update'',
        request_records = Some [[(''n'', PInt 2)]], dry_run = False \<rparr>"
  have d: "describe ?E [1, 2] (resource_id ?dd) = Inr sample_columns"
    by (simp add: sample_engine_def)
  have c: "\<not> list_all (\<lambda>c. starts_with_underscore (fst c)) sample_columns"
    by (simp add: sample_columns_def starts_with_underscore_def)
  have m: "method_name ?dd = None \<or> method_name ?dd = Some ''update'' \<or> method_name ?dd = Some ''upsert''"
    by simp
  have rs: "request_records ?dd = Some [[(''n'', PInt 2)]]" by simp
  have r: "[(''n'', PInt 2)] \<in> set [[(''n'', PInt 2)]]" by simp
  have noid: "''_id'' \<notin> set (map fst [(''n'', PInt 2)])" by simp
  have nokey: "unique_key_of ?E [1, 2] (resource_id ?dd) = []
      \<or> \<not> set (unique_key_of ?E [1, 2] (resource_id ?dd)) \<subseteq> set (map fst [(''n'', PInt 2)])"
    by (simp add: sample_engine_def)
  have uk: "unique_key_of ?E [1, 2] ''res1'' = [''email'']" by (simp add: sample_engine_def)
  from C5_key_required [OF d c m rs r noid nokey, where t = 60000]
  show ?thesis by (simp add: uk)
qed







section \<open>Indexes\<close>





















































end
